theory Spec2Isabelle
  imports Complex_Main "HOL-Library.Multiset"
begin

section \<open>Values of the source language\<close>

text \<open>
  The planner and the player are JavaScript. An exception is a value of \<open>error\<close>; a
  function that can throw returns \<open>error + 'a\<close> with \<open>Inl\<close> for the exception. A property
  that may be absent (\<open>undefined\<close>) is an \<open>option\<close>. Tempi, beat times and wheel
  positions are taken as integers, which a double holds exactly; where a computation can
  yield \<open>NaN\<close> the number is an \<open>int option\<close> and \<open>None\<close> is \<open>NaN\<close>. Durations (an upload has
  \<open>metadata.format.duration * 1000\<close> milliseconds, a fraction), band energies and the
  scores computed from them are doubles: a double is the rational it denotes, and
  every arithmetic operation on doubles rounds its exact result to the nearest double.
  Strings are lists of ASCII characters.
\<close>

datatype error = TypeError | Error string

type_synonym jsnum = "int option"

text \<open>\<open>x || d\<close> on a number: \<open>undefined\<close>, \<open>NaN\<close> and \<open>0\<close> are falsy.\<close>

definition num_or :: "jsnum \<Rightarrow> int \<Rightarrow> int" where
  "num_or x d = (case x of None \<Rightarrow> d | Some v \<Rightarrow> if v = 0 then d else v)"

text \<open>\<open>x || d\<close> on a string: \<open>undefined\<close> and the empty string are falsy.\<close>

definition str_or :: "string option \<Rightarrow> string \<Rightarrow> string" where
  "str_or x d = (case x of None \<Rightarrow> d | Some s \<Rightarrow> if s = [] then d else s)"

text \<open>Subtraction of two numbers either of which may be \<open>undefined\<close> or \<open>NaN\<close>.\<close>

definition js_sub :: "jsnum \<Rightarrow> jsnum \<Rightarrow> jsnum" where
  "js_sub a b = (case (a, b) of (Some x, Some y) \<Rightarrow> Some (x - y) | _ \<Rightarrow> None)"

text \<open>\<open>Math.abs(x) < c\<close> and \<open>Math.abs(x) > c\<close>: every comparison with \<open>NaN\<close> is false.\<close>

definition abs_lt :: "jsnum \<Rightarrow> int \<Rightarrow> bool" where
  "abs_lt x c = (case x of None \<Rightarrow> False | Some v \<Rightarrow> \<bar>v\<bar> < c)"

definition abs_gt :: "jsnum \<Rightarrow> int \<Rightarrow> bool" where
  "abs_gt x c = (case x of None \<Rightarrow> False | Some v \<Rightarrow> \<bar>v\<bar> > c)"

text \<open>
  Rounding to the nearest double (IEEE 754 binary64, ties to even). For \<open>x > 0\<close>,
  \<open>floorLog2 x\<close> is the \<open>k\<close> with \<open>2^k \<le> x < 2^(k+1)\<close>; a double near \<open>x\<close> is a multiple of
  \<open>2^(k-52)\<close>, and of \<open>2^(-1074)\<close> in the subnormal range. Results stay below \<open>2^1024\<close>
  in the program, so no operation overflows to \<open>Infinity\<close>.
\<close>

function bitLength :: "int \<Rightarrow> nat" where
  "bitLength x = (if x \<le> 0 then 0 else Suc (bitLength (x div 2)))"
  by pat_completeness auto
termination
  by (relation "measure nat") auto

declare bitLength.simps [simp del]

definition floorLog2 :: "rat \<Rightarrow> int" where
  "floorLog2 x =
     (let (p, q) = quotient_of x; k = int (bitLength p) - int (bitLength q)
      in if 2 powi k \<le> x then k else k - 1)"

definition roundHalfEven :: "rat \<Rightarrow> int" where
  "roundHalfEven y =
     (let f = \<lfloor>y\<rfloor>; r = y - of_int f
      in if r < 1 / 2 \<or> (r = 1 / 2 \<and> even f) then f else f + 1)"

definition toDouble :: "rat \<Rightarrow> rat" where
  "toDouble x =
     (if x = 0 then 0
      else (let e = max (floorLog2 \<bar>x\<bar> - 52) (- 1074)
            in of_int (roundHalfEven (x / 2 powi e)) * 2 powi e))"

text \<open>\<open>x || d\<close> on a double.\<close>

definition dbl_or :: "rat option \<Rightarrow> rat \<Rightarrow> rat" where
  "dbl_or x d = (case x of None \<Rightarrow> d | Some v \<Rightarrow> if v = 0 then d else v)"

text \<open>
  \<open>Math.floor(d * 0.8)\<close>: the literal is the double nearest to \<open>4/5\<close>, the product is
  rounded, then floored.
\<close>

definition floor_80_percent :: "rat \<Rightarrow> int" where
  "floor_80_percent d = \<lfloor>toDouble (d * toDouble (4 / 5))\<rfloor>"

definition toLowerCase_char :: "char \<Rightarrow> char" where
  "toLowerCase_char c =
     (case map_of (zip ''ABCDEFGHIJKLMNOPQRSTUVWXYZ'' ''abcdefghijklmnopqrstuvwxyz'') c of
        None \<Rightarrow> c | Some l \<Rightarrow> l)"

definition toLowerCase :: "string \<Rightarrow> string" where
  "toLowerCase s = map toLowerCase_char s"

text \<open>
  \<open>parseInt\<close> on a string that starts with its digits (no blanks, no sign, as every
  value of the wheel table): the leading digits in base ten, \<open>NaN\<close> when there are none.
\<close>

definition digit_of :: "char \<Rightarrow> int option" where
  "digit_of c = map_of (zip ''0123456789'' [0, 1, 2, 3, 4, 5, 6, 7, 8, 9]) c"

definition parseInt :: "string \<Rightarrow> jsnum" where
  "parseInt s =
     (let ds = takeWhile (\<lambda>c. digit_of c \<noteq> None) s
      in if ds = [] then None
         else Some (foldl (\<lambda>acc c. 10 * acc + (case digit_of c of None \<Rightarrow> 0 | Some v \<Rightarrow> v)) 0 ds))"

text \<open>\<open>s.substring(a, b)\<close> and \<open>s.substring(a)\<close> for \<open>a \<le> b\<close>.\<close>

definition substring :: "string \<Rightarrow> nat \<Rightarrow> nat \<Rightarrow> string" where
  "substring s a b = take (b - a) (drop a s)"

definition substring_from :: "string \<Rightarrow> nat \<Rightarrow> string" where
  "substring_from s a = drop a s"

text \<open>Sequencing of calls that can throw, and \<open>try { ... } catch (e) { ... }\<close>.\<close>

definition andThen :: "error + 'a \<Rightarrow> ('a \<Rightarrow> error + 'b) \<Rightarrow> error + 'b" where
  "andThen r f = (case r of Inl e \<Rightarrow> Inl e | Inr x \<Rightarrow> f x)"

definition tryCatch :: "error + 'a \<Rightarrow> (error \<Rightarrow> error + 'a) \<Rightarrow> error + 'a" where
  "tryCatch r handler = (case r of Inl e \<Rightarrow> handler e | Inr x \<Rightarrow> Inr x)"


section \<open>Key compatibility (audio-analyzer.js)\<close>

definition camelotMap :: "(string \<times> string) list" where
  "camelotMap =
     [(''C major'', ''08B''), (''G major'', ''09B''), (''D major'', ''10B''), (''A major'', ''11B''),
      (''E major'', ''12B''), (''B major'', ''01B''), (''F# major'', ''02B''), (''C# major'', ''03B''),
      (''G# major'', ''04B''), (''D# major'', ''05B''), (''A# major'', ''06B''), (''F major'', ''07B''),
      (''A minor'', ''08A''), (''E minor'', ''09A''), (''B minor'', ''10A''), (''F# minor'', ''11A''),
      (''C# minor'', ''12A''), (''G# minor'', ''01A''), (''D# minor'', ''02A''), (''A# minor'', ''03A''),
      (''F minor'', ''04A''), (''C minor'', ''05A''), (''G minor'', ''06A''), (''D minor'', ''07A''),
      (''Db major'', ''03B''), (''Eb major'', ''05B''), (''Gb major'', ''02B''), (''Ab major'', ''04B''),
      (''Bb major'', ''06B''),
      (''Bb minor'', ''03A''), (''Eb minor'', ''02A''), (''Ab minor'', ''01A''), (''Db minor'', ''04A''),
      (''Gb minor'', ''11A'')]"

text \<open>
  \<open>keyToCamelot(key, scale)\<close>: the template string prints an absent key as
  \<open>undefined\<close>; \<open>scale.toLowerCase()\<close> throws a TypeError on an absent scale. The
  result is the table's entry or \<open>null\<close> (\<open>None\<close>).
\<close>

definition keyToCamelot :: "string option \<Rightarrow> string option \<Rightarrow> error + string option" where
  "keyToCamelot key scale =
     (case scale of
        None \<Rightarrow> Inl TypeError
      | Some sc \<Rightarrow>
          Inr (map_of camelotMap
                 ((case key of None \<Rightarrow> ''undefined'' | Some k \<Rightarrow> k) @ '' '' @ toLowerCase sc)))"

text \<open>
  The part of \<open>analyzeKeyCompatibility\<close> after both keys are found on the wheel. The
  relative hour is declared \<open>const\<close>, so the assignment \<open>relativeHour = 12\<close>, reached
  when the relative hour is \<open>0\<close>, throws a TypeError.
\<close>

definition compareCamelot :: "string \<Rightarrow> string \<Rightarrow> error + string" where
  "compareCamelot sourceCamelot targetCamelot =
     (let sourceHour = parseInt (substring sourceCamelot 0 2);
          sourceMode = substring_from sourceCamelot 2;
          targetHour = parseInt (substring targetCamelot 0 2);
          targetMode = substring_from targetCamelot 2
      in case (sourceHour, targetHour) of
           (Some sh, Some th) \<Rightarrow>
             if sourceCamelot = targetCamelot then Inr ''perfect''
             else if sourceMode = targetMode \<and> (sh = th mod 12 + 1 \<or> th = sh mod 12 + 1)
               then Inr ''compatible''
             else
               (let opposite = (sourceMode = ''A'' \<and> targetMode = ''B'')
                             \<or> (sourceMode = ''B'' \<and> targetMode = ''A'');
                    relativeHour = (if sourceMode = ''A'' then (sh + 3) mod 12
                                    else (sh - 3 + 12) mod 12)
                in if opposite \<and> relativeHour = 0 then Inl TypeError
                   else if opposite \<and> relativeHour = th then Inr ''compatible''
                   else if sourceMode = targetMode \<and> (sh = (th + 7) mod 12 \<or> th = (sh + 7) mod 12)
                     then Inr ''compatible''
                   else if \<bar>sh - th\<bar> = 6 then Inr ''clash''
                   else Inr ''moderate'')
         | _ \<Rightarrow> if sourceCamelot = targetCamelot then Inr ''perfect'' else Inr ''moderate'')"

definition analyzeKeyCompatibility ::
  "string option \<Rightarrow> string option \<Rightarrow> string option \<Rightarrow> string option \<Rightarrow> error + string" where
  "analyzeKeyCompatibility sourceKey sourceScale targetKey targetScale =
     (case keyToCamelot sourceKey sourceScale of
        Inl e \<Rightarrow> Inl e
      | Inr sourceCamelot \<Rightarrow>
          (case keyToCamelot targetKey targetScale of
             Inl e \<Rightarrow> Inl e
           | Inr targetCamelot \<Rightarrow>
               (case (sourceCamelot, targetCamelot) of
                  (Some sc, Some tc) \<Rightarrow> compareCamelot sc tc
                | _ \<Rightarrow> Inr ''unknown'')))"

definition determineTransitionType :: "string \<Rightarrow> string \<Rightarrow> string" where
  "determineTransitionType bpmCompatibility keyCompatibility =
     (if bpmCompatibility = ''good'' \<and> keyCompatibility = ''perfect'' then ''beatmatch_blend''
      else if bpmCompatibility = ''good'' then ''beatmatch_fade''
      else if keyCompatibility = ''perfect'' \<or> keyCompatibility = ''compatible'' then ''harmonic_fade''
      else if bpmCompatibility = ''moderate'' \<and> keyCompatibility \<noteq> ''clash'' then ''tempo_adjust''
      else ''cut_eq'')"


section \<open>Tracks and their analysis\<close>

text \<open>
  The \<open>rhythm\<close> object of an analysis, as \<open>analyzeTrackFile\<close> builds it: every property
  is absent when the rhythm library was not loaded (\<open>rhythmAnalysis = {}\<close>). An energy
  band is \<open>(lowEnergy, midEnergy, highEnergy)\<close>, three doubles.
\<close>

record rhythm =
  r_bpm :: jsnum
  r_beats :: "int list option"
  r_key :: "string option"
  r_scale :: "string option"
  r_energyBands :: "(rat \<times> rat \<times> rat) list option"

text \<open>
  An analysis object. \<open>findBestTransition\<close> reads its \<open>duration\<close> and \<open>rhythm\<close>
  properties; \<open>analyzeTrackFile\<close> stores the duration under \<open>format\<close>, so \<open>a_duration\<close>
  is \<open>None\<close> on what it returns.
\<close>

record analysis =
  a_duration :: "rat option"
  a_rhythm :: "rhythm option"

record track =
  t_id :: nat
  t_bpm :: jsnum
  t_duration :: "rat option"
  t_uploaded :: bool
  t_filePath :: "string option"
  t_analyzed :: "bool option"
  t_advancedAnalysis :: "analysis option"
  t_energy :: "int option"
  t_key :: "string option"
  t_scale :: "string option"


section \<open>Track analysis (audio-analyzer.js, upload-routes.js)\<close>

text \<open>
  What \<open>analyzeTrackFile\<close> meets outside the program: whether the file exists, its
  modification time, and the outcome of the \<open>try\<close> block (reading the file, parsing its
  metadata, decoding it and running the rhythm library), which is the analysis it builds
  or the exception that one of these steps throws. A rejected promise is an exception.
\<close>

record analysisEnv =
  fileExists :: "string \<Rightarrow> bool"
  mtimeMs :: "string \<Rightarrow> int"
  decodeAndAnalyze :: "string \<Rightarrow> error + analysis"

type_synonym analysisCache = "string \<times> int \<rightharpoonup> analysis"

text \<open>
  \<open>analyzeTrackFile\<close>, with the cache as state. Its \<open>catch\<close> logs the error and throws
  it again.
\<close>

definition analyzeTrackFile ::
  "analysisEnv \<Rightarrow> analysisCache \<Rightarrow> string \<Rightarrow> (error + analysis) \<times> analysisCache" where
  "analyzeTrackFile env cache filePath =
     (if fileExists env filePath then
        (let cacheKey = (filePath, mtimeMs env filePath)
         in case cache cacheKey of
              Some cached \<Rightarrow> (Inr cached, cache)
            | None \<Rightarrow>
                (case tryCatch (decodeAndAnalyze env filePath) (\<lambda>error. Inl error) of
                   Inl e \<Rightarrow> (Inl e, cache)
                 | Inr a \<Rightarrow> (Inr a, cache(cacheKey \<mapsto> a))))
      else (Inl (Error (''File not found: '' @ filePath)), cache))"

text \<open>
  The answer of the catalogue to \<open>SC.get('/tracks/' + id)\<close>: the call itself throws, the
  callback gets an error, or it gets the detailed track.
\<close>

datatype scReply = Throws error | Failed error | Found track

text \<open>
  The function \<open>analyzeTracks\<close> maps over the tracks, for one track; \<open>Promise.all\<close>
  rejects only if it does for some track. The inner \<open>try\<close> swallows what
  \<open>analyzeTrackFile\<close> throws; the outer \<open>catch\<close> returns the track with a tempo.
\<close>

definition analyzeTrack ::
  "analysisEnv \<Rightarrow> analysisCache \<Rightarrow> (nat \<Rightarrow> scReply) \<Rightarrow> track \<Rightarrow> error + track" where
  "analyzeTrack env cache scGet track =
     tryCatch
       (andThen
          (if num_or (t_bpm track) 0 = 0 \<and> t_id track \<noteq> 0 then
             (case scGet (t_id track) of
                Throws e \<Rightarrow> Inl e
              | Failed e \<Rightarrow> Inr (track\<lparr> t_bpm := Some 120, t_analyzed := Some False \<rparr>)
              | Found detailedTrack \<Rightarrow> Inr (detailedTrack\<lparr> t_analyzed := Some True \<rparr>))
           else Inr track)
          (\<lambda>trackInfo.
             let advancedAnalysis =
                   (if t_uploaded track \<and> str_or (t_filePath track) [] \<noteq> []
                       \<and> fileExists env (str_or (t_filePath track) [])
                    then
                      (case tryCatch
                              (map_sum id Some
                                 (fst (analyzeTrackFile env cache (str_or (t_filePath track) []))))
                              (\<lambda>analyzeError. Inr None) of
                         Inl e \<Rightarrow> None
                       | Inr a \<Rightarrow> a)
                    else None)
             in Inr (trackInfo\<lparr> t_advancedAnalysis := advancedAnalysis,
                                  t_analyzed := Some (t_analyzed trackInfo = Some True
                                                      \<or> advancedAnalysis \<noteq> None) \<rparr>)))
       (\<lambda>error. Inr (track\<lparr> t_bpm := Some (num_or (t_bpm track) 120), t_analyzed := Some False \<rparr>))"

section \<open>Transition planner (audio-analyzer.js, upload-routes.js)\<close>

text \<open>The object \<open>findBestTransition\<close> or the fallback branch builds for one pair.\<close>

record transitionInfo =
  ti_transitionPoint :: jsnum
  ti_sourceBpm :: jsnum
  ti_targetBpm :: jsnum
  ti_bpmDifference :: jsnum
  ti_bpmCompatibility :: "string option"
  ti_sourceKey :: "string option"
  ti_targetKey :: "string option"
  ti_keyCompatibility :: "string option"
  ti_type :: string
  ti_duration :: jsnum

text \<open>
  One element of the \<open>transitions\<close> array of a mix. The planner sets the first nine
  properties; the player also reads \<open>sourceBpm\<close> and \<open>targetBpm\<close>, which the planner
  leaves absent.
\<close>

record transition =
  fromTrack :: nat
  toTrack :: nat
  transitionPoint :: jsnum
  bpmDifference :: jsnum
  sourceKey :: "string option"
  targetKey :: "string option"
  keyCompatibility :: "string option"
  transitionType :: string
  transitionDuration :: int
  sourceBpm :: jsnum
  targetBpm :: jsnum

text \<open>
  The search loop of \<open>findBestTransition\<close>: the first index from \<open>startSearchAt\<close> on
  that is a multiple of 16.
\<close>

definition phraseBoundary :: "int list \<Rightarrow> nat \<Rightarrow> int option" where
  "phraseBoundary beats startSearchAt =
     (case filter (\<lambda>i. i mod 16 = 0) [startSearchAt ..< length beats] of
        [] \<Rightarrow> None
      | i # _ \<Rightarrow> Some (beats ! i))"

text \<open>
  \<open>Math.floor(beats.length * 0.66)\<close>: for a length below \<open>2^40\<close> the double product,
  floored, is \<open>\<lfloor>33 n / 50\<rfloor>\<close>.
\<close>

definition floor_66_percent :: "nat \<Rightarrow> nat" where
  "floor_66_percent n = (33 * n) div 50"

definition bpmOf :: "analysis \<Rightarrow> jsnum" where
  "bpmOf a = (case a_rhythm a of None \<Rightarrow> None | Some r \<Rightarrow> r_bpm r)"

definition keyOf :: "analysis \<Rightarrow> string option" where
  "keyOf a = (case a_rhythm a of None \<Rightarrow> None | Some r \<Rightarrow> r_key r)"

definition beatsOf :: "analysis \<Rightarrow> int list option" where
  "beatsOf a = (case a_rhythm a of None \<Rightarrow> None | Some r \<Rightarrow> r_beats r)"

definition findBestTransition :: "analysis \<Rightarrow> analysis \<Rightarrow> error + transitionInfo" where
  "findBestTransition sourceTrack targetTrack =
     (let defaultTransitionPoint = map_option floor_80_percent (a_duration sourceTrack)
      in case (a_rhythm sourceTrack, beatsOf sourceTrack, a_rhythm targetTrack, beatsOf targetTrack) of
           (Some sr, Some beats, Some tr, Some _) \<Rightarrow>
             (let bestTransitionPoint =
                    (case phraseBoundary beats (floor_66_percent (length beats)) of
                       None \<Rightarrow> defaultTransitionPoint
                     | Some b \<Rightarrow> Some b);
                  bpmDiff = js_sub (r_bpm tr) (r_bpm sr);
                  bpmCompatibility = (if abs_lt bpmDiff 10 then ''good''
                                      else if abs_lt bpmDiff 20 then ''moderate''
                                      else ''challenging'')
              in case analyzeKeyCompatibility (r_key sr) (r_scale sr) (r_key tr) (r_scale tr) of
                   Inl e \<Rightarrow> Inl e
                 | Inr keyCompat \<Rightarrow>
                     Inr \<lparr> ti_transitionPoint = bestTransitionPoint,
                           ti_sourceBpm = r_bpm sr,
                           ti_targetBpm = r_bpm tr,
                           ti_bpmDifference = bpmDiff,
                           ti_bpmCompatibility = Some bpmCompatibility,
                           ti_sourceKey = r_key sr,
                           ti_targetKey = r_key tr,
                           ti_keyCompatibility = Some keyCompat,
                           ti_type = determineTransitionType bpmCompatibility keyCompat,
                           ti_duration = None \<rparr>)
         | _ \<Rightarrow>
             Inr \<lparr> ti_transitionPoint = defaultTransitionPoint,
                   ti_sourceBpm = Some (num_or (bpmOf sourceTrack) 120),
                   ti_targetBpm = Some (num_or (bpmOf targetTrack) 120),
                   ti_bpmDifference =
                     Some (num_or (bpmOf targetTrack) 120 - num_or (bpmOf sourceTrack) 120),
                   ti_bpmCompatibility = None,
                   ti_sourceKey = Some (str_or (keyOf sourceTrack) ''C''),
                   ti_targetKey = Some (str_or (keyOf targetTrack) ''C''),
                   ti_keyCompatibility = Some ''unknown'',
                   ti_type = ''simple'',
                   ti_duration = None \<rparr>)"

text \<open>The fallback branch of \<open>generateTransitionPoints\<close> (no analysis for the pair).\<close>

definition fallbackTransition :: "track \<Rightarrow> track \<Rightarrow> transitionInfo" where
  "fallbackTransition currentTrack nextTrack =
     (let currentDuration = dbl_or (t_duration currentTrack) 180000;
          currentBpm = num_or (t_bpm currentTrack) 120;
          nextBpm = num_or (t_bpm nextTrack) 120;
          bpmDiff = nextBpm - currentBpm;
          transitionPoint = floor_80_percent currentDuration;
          (transitionDuration, transitionType) =
             (if \<bar>bpmDiff\<bar> < 5 then (6000, ''beatmatch'')
              else if \<bar>bpmDiff\<bar> > 15 then (12000, ''long_fade'')
              else (8000, ''fade''))
      in \<lparr> ti_transitionPoint = Some transitionPoint,
           ti_sourceBpm = Some currentBpm,
           ti_targetBpm = Some nextBpm,
           ti_bpmDifference = Some bpmDiff,
           ti_bpmCompatibility = None,
           ti_sourceKey = None,
           ti_targetKey = None,
           ti_keyCompatibility = None,
           ti_type = transitionType,
           ti_duration = Some transitionDuration \<rparr>)"

text \<open>The body of the loop of \<open>generateTransitionPoints\<close> for one consecutive pair.\<close>

definition transitionBetween :: "track \<Rightarrow> track \<Rightarrow> error + transition" where
  "transitionBetween currentTrack nextTrack =
     (case (case (t_advancedAnalysis currentTrack, t_advancedAnalysis nextTrack) of
              (Some ca, Some na) \<Rightarrow> findBestTransition ca na
            | _ \<Rightarrow> Inr (fallbackTransition currentTrack nextTrack)) of
        Inl e \<Rightarrow> Inl e
      | Inr transitionInfo \<Rightarrow>
          Inr \<lparr> fromTrack = t_id currentTrack,
                toTrack = t_id nextTrack,
                transitionPoint = ti_transitionPoint transitionInfo,
                bpmDifference = ti_bpmDifference transitionInfo,
                sourceKey = ti_sourceKey transitionInfo,
                targetKey = ti_targetKey transitionInfo,
                keyCompatibility = ti_keyCompatibility transitionInfo,
                transitionType = ti_type transitionInfo,
                transitionDuration = num_or (ti_duration transitionInfo) 8000,
                sourceBpm = None, targetBpm = None \<rparr>)"

fun generateTransitionPoints :: "track list \<Rightarrow> error + transition list" where
  "generateTransitionPoints (currentTrack # nextTrack # rest) =
     (case transitionBetween currentTrack nextTrack of
        Inl e \<Rightarrow> Inl e
      | Inr t \<Rightarrow>
          (case generateTransitionPoints (nextTrack # rest) of
             Inl e \<Rightarrow> Inl e
           | Inr ts \<Rightarrow> Inr (t # ts)))"
| "generateTransitionPoints _ = Inr []"


text \<open>
  The plan-time invariant of a transition, in the words of the specification:
  \<open>transitionPointMs + durationMs <= fromTrack.durationMs\<close>. A comparison with \<open>NaN\<close>
  is false.
\<close>

definition fitsSource :: "transition \<Rightarrow> rat \<Rightarrow> bool" where
  "fitsSource tr fromDuration =
     (case transitionPoint tr of None \<Rightarrow> False
      | Some p \<Rightarrow> of_int (p + transitionDuration tr) \<le> fromDuration)"

text \<open>
  The duration rule, in the words of the specification: 6000 if \<open>|bpmDelta| < 5\<close>,
  12000 if \<open>|bpmDelta| > 15\<close>, else 8000.
\<close>

definition spec_durationMs :: "int \<Rightarrow> int" where
  "spec_durationMs bpmDelta =
     (if \<bar>bpmDelta\<bar> < 5 then 6000 else if \<bar>bpmDelta\<bar> > 15 then 12000 else 8000)"

text \<open>The pair \<open>i\<close>, \<open>i + 1\<close> of the plan goes through \<open>findBestTransition\<close>.\<close>

definition bothAnalysed :: "track list \<Rightarrow> nat \<Rightarrow> bool" where
  "bothAnalysed tracks i =
     (t_advancedAnalysis (tracks ! i) \<noteq> None \<and> t_advancedAnalysis (tracks ! Suc i) \<noteq> None)"


section \<open>Mix order planner (upload-routes.js)\<close>

text \<open>
  The copy \<open>calculateMixOrder\<close> makes of every track when there are three or more:
  the track's own properties (\<open>...track\<close>) and the four it sets.
\<close>

record mtrack =
  m_source :: track
  m_energy :: int
  m_bpm :: int
  m_key :: string
  m_scale :: string

definition m_id :: "mtrack \<Rightarrow> nat" where
  "m_id t = t_id (m_source t)"

text \<open>The copy as the object the caller receives: the set properties shadow the track's.\<close>

definition toObject :: "mtrack \<Rightarrow> track" where
  "toObject t =
     (m_source t)\<lparr> t_energy := Some (m_energy t), t_bpm := Some (m_bpm t),
                   t_key := Some (m_key t), t_scale := Some (m_scale t) \<rparr>"

definition rhythmOf :: "track \<Rightarrow> rhythm option" where
  "rhythmOf t = (case t_advancedAnalysis t of None \<Rightarrow> None | Some a \<Rightarrow> a_rhythm a)"

definition energyBandsOf :: "track \<Rightarrow> (rat \<times> rat \<times> rat) list" where
  "energyBandsOf t =
     (case rhythmOf t of None \<Rightarrow> []
      | Some r \<Rightarrow> (case r_energyBands r of None \<Rightarrow> [] | Some bands \<Rightarrow> bands))"

text \<open>
  \<open>estimateTrackEnergy\<close>. The average of the band energies is computed in doubles: each
  sum, quotient and product is rounded.
\<close>

definition estimateTrackEnergy :: "track \<Rightarrow> int" where
  "estimateTrackEnergy t =
     (let bands = energyBandsOf t
      in if length bands > 0 then
           (let avgEnergy =
                  toDouble
                    (foldl (\<lambda>sum (lowEnergy, midEnergy, highEnergy).
                              toDouble
                                (sum + toDouble
                                         (toDouble (toDouble (lowEnergy + midEnergy) + highEnergy) / 3)))
                       0 bands
                     / of_nat (length bands))
            in max 1 (min 10 \<lfloor>toDouble (avgEnergy * 10)\<rfloor>))
         else
           (case t_bpm t of
              None \<Rightarrow> 5
            | Some b \<Rightarrow>
                if b = 0 then 5
                else if b < 80 then 2
                else if b < 100 then 4
                else if b < 120 then 6
                else if b < 140 then 8
                else 10))"

subsection \<open>Energy curve\<close>

text \<open>
  \<open>result.length > tracks.length * 0.7\<close>, in doubles, on integers. The double nearest to
  0.7 is \<open>6305039478318694 / 2^53\<close>; the product with the integer \<open>n\<close> is rounded to 53
  significant bits, ties to even (\<open>bitLength\<close> counts the bits of a positive integer).
\<close>

definition round53 :: "int \<Rightarrow> int" where
  "round53 x =
     (let b = bitLength x
      in if b \<le> 53 then x
         else
           (let s = b - 53; q = x div 2 ^ s; r = x mod 2 ^ s; half = 2 ^ (s - 1)
            in (if r > half \<or> (r = half \<and> odd q) then q + 1 else q) * 2 ^ s))"

definition exceeds70 :: "nat \<Rightarrow> nat \<Rightarrow> bool" where
  "exceeds70 len n = (int len * 2 ^ 53 > round53 (int n * 6305039478318694))"

text \<open>
  The three orderings and the vote work on arrays of references to the copies and read
  a copy's properties through its reference: \<open>view\<close> gives the object behind a
  reference. Where objects are handled as values, a copy is its own reference and
  \<open>view\<close> is the identity.

  The \<open>while\<close> loop of \<open>createEnergyCurve\<close>. When no branch pushes a track the loop
  never leaves: that is the value \<open>None\<close>.
\<close>

function energyCurveLoop ::
  "'a list \<Rightarrow> nat \<Rightarrow> 'a list \<Rightarrow> nat \<Rightarrow> int \<Rightarrow> bool \<Rightarrow> 'a list option" where
  "energyCurveLoop sortedByEnergy n result upIndex downIndex goingUp =
     (if length result < n then
        (if goingUp \<and> upIndex < length sortedByEnergy then
           energyCurveLoop sortedByEnergy n (result @ [sortedByEnergy ! upIndex])
             (upIndex + 1) downIndex (goingUp \<and> \<not> exceeds70 (length result + 1) n)
         else if 0 \<le> downIndex then
           energyCurveLoop sortedByEnergy n (result @ [sortedByEnergy ! nat downIndex])
             upIndex (downIndex - 1) (goingUp \<and> \<not> exceeds70 (length result + 1) n)
         else if upIndex < length sortedByEnergy then
           energyCurveLoop sortedByEnergy n (result @ [sortedByEnergy ! upIndex])
             (upIndex + 1) downIndex (goingUp \<and> \<not> exceeds70 (length result + 1) n)
         else None)
      else Some result)"
  by pat_completeness auto
termination
  by (relation "measure (\<lambda>(sortedByEnergy, n, result, upIndex, downIndex, goingUp).
                   (length sortedByEnergy - upIndex) + nat (downIndex + 1))") auto

declare energyCurveLoop.simps [simp del]

text \<open>
  \<open>createEnergyCurve\<close> is called with three tracks or more. (On an empty array the source
  returns the one-element array \<open>[undefined]\<close>, which no list of tracks models; the
  model has no value there.)
\<close>

definition createEnergyCurve :: "('a \<Rightarrow> mtrack) \<Rightarrow> 'a list \<Rightarrow> 'a list option" where
  "createEnergyCurve view tracks =
     (let sortedByEnergy = sort_key (\<lambda>t. m_energy (view t)) tracks;
          midpoint = length sortedByEnergy div 2
      in if tracks = [] then None
         else energyCurveLoop sortedByEnergy (length tracks) [sortedByEnergy ! midpoint]
                (midpoint + 1) (int midpoint - 1) True)"

subsection \<open>Tempo-greedy ordering\<close>

text \<open>
  The \<open>forEach\<close> of \<open>minimizeBpmJumps\<close>: the index of the first remaining track whose
  tempo is nearest to the last placed one. \<open>bestDiff\<close> starts at \<open>Infinity\<close> (\<open>None\<close>).
\<close>

definition closestBpmIndex :: "('a \<Rightarrow> mtrack) \<Rightarrow> 'a \<Rightarrow> 'a list \<Rightarrow> nat" where
  "closestBpmIndex view lastTrack remaining =
     fst (fold (\<lambda>(track, index) (bestMatch, bestDiff).
                  let diff = \<bar>m_bpm (view track) - m_bpm (view lastTrack)\<bar>
                  in if (case bestDiff of None \<Rightarrow> True | Some bd \<Rightarrow> diff < bd)
                     then (index, Some diff) else (bestMatch, bestDiff))
               (zip remaining [0 ..< length remaining]) (0, None))"

text \<open>\<open>remaining.splice(i, 1)\<close>.\<close>

definition splice1 :: "'a list \<Rightarrow> nat \<Rightarrow> 'a list" where
  "splice1 xs i = take i xs @ drop (Suc i) xs"

lemma fold_best_index_bound:
  "fst acc < n \<or> (fst acc = 0) \<Longrightarrow> set ps \<subseteq> A \<times> {..<n} \<Longrightarrow> 0 < n \<Longrightarrow>
     fst (fold (\<lambda>(track, index) (bestMatch, best).
                  if better track best then (index, new track) else (bestMatch, best)) ps acc) < n"
proof (induction ps arbitrary: acc)
  case Nil
  then show ?case by auto
next
  case (Cons p ps)
  obtain track index where p: "p = (track, index)" by (cases p)
  obtain bestMatch best where acc: "acc = (bestMatch, best)" by (cases acc)
  have "index < n" using Cons.prems(2) p by auto
  then show ?case
    using Cons.IH[of "if better track best then (index, new track) else (bestMatch, best)"]
      Cons.prems p acc
    by (auto split: if_splits)
qed

lemma closestBpmIndex_less:
  "remaining \<noteq> [] \<Longrightarrow> closestBpmIndex view lastTrack remaining < length remaining"
proof -
  assume ne: "remaining \<noteq> []"
  have sub: "set (zip remaining [0 ..< length remaining]) \<subseteq> UNIV \<times> {..<length remaining}"
    by (auto dest: set_zip_rightD)
  show ?thesis
    unfolding closestBpmIndex_def Let_def
    using fold_best_index_bound[where acc = "(0, None)" and n = "length remaining"
        and better = "\<lambda>track best. case best of None \<Rightarrow> True
                                     | Some bd \<Rightarrow> \<bar>m_bpm (view track) - m_bpm (view lastTrack)\<bar> < bd"
        and new = "\<lambda>track. Some \<bar>m_bpm (view track) - m_bpm (view lastTrack)\<bar>", OF _ sub]
      ne
    by simp
qed

text \<open>The \<open>while\<close> loop of \<open>minimizeBpmJumps\<close>; \<open>result\<close> holds at least one track.\<close>

function bpmLoop :: "('a \<Rightarrow> mtrack) \<Rightarrow> 'a list \<Rightarrow> 'a list \<Rightarrow> 'a list" where
  "bpmLoop view result remaining =
     (if length remaining > 0 then
        (let lastTrack = last result;
             bestMatch = closestBpmIndex view lastTrack remaining
         in bpmLoop view (result @ [remaining ! bestMatch]) (splice1 remaining bestMatch))
      else result)"
  by pat_completeness auto
termination
proof (relation "measure (\<lambda>(view, result, remaining). length remaining)")
  fix view :: "'a \<Rightarrow> mtrack" and result remaining :: "'a list" and lastTrack bestMatch
  assume "0 < length remaining" and "bestMatch = closestBpmIndex view lastTrack remaining"
  then have "bestMatch < length remaining"
    using closestBpmIndex_less by simp
  then show "((view, result @ [remaining ! bestMatch], splice1 remaining bestMatch),
              (view, result, remaining))
               \<in> measure (\<lambda>(view, result, remaining). length remaining)"
    by (simp add: splice1_def)
qed simp

declare bpmLoop.simps [simp del]

text \<open>
  \<open>minimizeBpmJumps\<close> (called with three tracks or more; on an empty array the source
  returns \<open>[undefined]\<close>, the model the empty list).
\<close>

definition minimizeBpmJumps :: "('a \<Rightarrow> mtrack) \<Rightarrow> 'a list \<Rightarrow> 'a list" where
  "minimizeBpmJumps view tracks =
     (case sort_key (\<lambda>t. m_bpm (view t)) tracks of
        [] \<Rightarrow> []
      | first # remaining \<Rightarrow> bpmLoop view [first] remaining)"

subsection \<open>Harmonic-greedy ordering\<close>

definition camelotWheel :: "(string \<times> int) list" where
  "camelotWheel =
     [(''C major'', 8), (''G major'', 9), (''D major'', 10), (''A major'', 11),
      (''E major'', 12), (''B major'', 1), (''F# major'', 2), (''C# major'', 3),
      (''G# major'', 4), (''D# major'', 5), (''A# major'', 6), (''F major'', 7),
      (''A minor'', 8), (''E minor'', 9), (''B minor'', 10), (''F# minor'', 11),
      (''C# minor'', 12), (''G# minor'', 1), (''D# minor'', 2), (''A# minor'', 3),
      (''F minor'', 4), (''C minor'', 5), (''G minor'', 6), (''D minor'', 7),
      (''Db major'', 3), (''Eb major'', 5), (''Gb major'', 2), (''Ab major'', 4), (''Bb major'', 6),
      (''Bb minor'', 3), (''Eb minor'', 2), (''Ab minor'', 1), (''Db minor'', 4), (''Gb minor'', 11)]"

definition scoreKeyCompatibility :: "string \<Rightarrow> string \<Rightarrow> string \<Rightarrow> string \<Rightarrow> int" where
  "scoreKeyCompatibility key1 scale1 key2 scale2 =
     (if key1 = key2 \<and> scale1 = scale2 then 10
      else
        (let mode1 = (if toLowerCase scale1 = ''minor'' then ''minor'' else ''major'');
             mode2 = (if toLowerCase scale2 = ''minor'' then ''minor'' else ''major'')
         in case (map_of camelotWheel (key1 @ '' '' @ mode1),
                  map_of camelotWheel (key2 @ '' '' @ mode2)) of
              (Some key1Pos, Some key2Pos) \<Rightarrow>
                (let d = \<bar>key1Pos - key2Pos\<bar>;
                     distance = (if d > 6 then 12 - d else d)
                 in if distance = 1 then 9
                    else if distance = 3 \<and> mode1 \<noteq> mode2 then 9
                    else if distance = 7 then 8
                    else if mode1 = mode2 then 10 - distance
                    else 6 - distance)
            | _ \<Rightarrow> 5))"

text \<open>
  The \<open>forEach\<close> of \<open>harmonicMixing\<close>: the index of the first remaining track with the
  highest combined score; \<open>bestScore\<close> starts at \<open>-1\<close>. The score is computed in
  doubles: the quotient, the difference and the sum are each rounded.
\<close>

definition harmonicScore :: "mtrack \<Rightarrow> mtrack \<Rightarrow> rat" where
  "harmonicScore lastTrack track =
     (let keyMatch = scoreKeyCompatibility (m_key lastTrack) (m_scale lastTrack)
                       (m_key track) (m_scale track);
          bpmDiff = \<bar>m_bpm track - m_bpm lastTrack\<bar>;
          bpmScore = toDouble (10 - min 10 (toDouble (of_int bpmDiff / 5)))
      in toDouble (of_int keyMatch * 2 + bpmScore))"

definition bestHarmonicIndex :: "('a \<Rightarrow> mtrack) \<Rightarrow> 'a \<Rightarrow> 'a list \<Rightarrow> nat" where
  "bestHarmonicIndex view lastTrack remaining =
     fst (fold (\<lambda>(track, index) (bestMatch, bestScore).
                  let score = harmonicScore (view lastTrack) (view track)
                  in if score > bestScore then (index, score) else (bestMatch, bestScore))
               (zip remaining [0 ..< length remaining]) (0, -1))"

lemma bestHarmonicIndex_less:
  "remaining \<noteq> [] \<Longrightarrow> bestHarmonicIndex view lastTrack remaining < length remaining"
proof -
  assume ne: "remaining \<noteq> []"
  have sub: "set (zip remaining [0 ..< length remaining]) \<subseteq> UNIV \<times> {..<length remaining}"
    by (auto dest: set_zip_rightD)
  show ?thesis
    unfolding bestHarmonicIndex_def Let_def
    using fold_best_index_bound[where acc = "(0, -1)" and n = "length remaining"
        and better = "\<lambda>track best. harmonicScore (view lastTrack) (view track) > best"
        and new = "\<lambda>track. harmonicScore (view lastTrack) (view track)", OF _ sub]
      ne
    by simp
qed

function harmonicLoop :: "('a \<Rightarrow> mtrack) \<Rightarrow> 'a list \<Rightarrow> 'a list \<Rightarrow> 'a list" where
  "harmonicLoop view result remaining =
     (if length remaining > 0 then
        (let lastTrack = last result;
             bestMatch = bestHarmonicIndex view lastTrack remaining
         in harmonicLoop view (result @ [remaining ! bestMatch]) (splice1 remaining bestMatch))
      else result)"
  by pat_completeness auto
termination
proof (relation "measure (\<lambda>(view, result, remaining). length remaining)")
  fix view :: "'a \<Rightarrow> mtrack" and result remaining :: "'a list" and lastTrack bestMatch
  assume "0 < length remaining" and "bestMatch = bestHarmonicIndex view lastTrack remaining"
  then have "bestMatch < length remaining"
    using bestHarmonicIndex_less by simp
  then show "((view, result @ [remaining ! bestMatch], splice1 remaining bestMatch),
              (view, result, remaining))
               \<in> measure (\<lambda>(view, result, remaining). length remaining)"
    by (simp add: splice1_def)
qed simp

declare harmonicLoop.simps [simp del]

text \<open>
  \<open>harmonicMixing\<close>. A key or scale is falsy when it is the empty string;
  \<open>tracksWithKeys.length < tracks.length * 0.5\<close> is exact in doubles. (With no keyed
  track at all, hence no track, the source returns \<open>[undefined]\<close>, the model the empty
  list.)
\<close>

definition hasKey :: "mtrack \<Rightarrow> bool" where
  "hasKey t = (m_key t \<noteq> [] \<and> m_scale t \<noteq> [])"

definition harmonicMixing :: "('a \<Rightarrow> mtrack) \<Rightarrow> 'a list \<Rightarrow> 'a list" where
  "harmonicMixing view tracks =
     (let tracksWithKeys = filter (\<lambda>t. hasKey (view t)) tracks
      in if 2 * length tracksWithKeys < length tracks then tracks
         else
           (case tracksWithKeys of
              [] \<Rightarrow> []
            | first # remaining \<Rightarrow>
                harmonicLoop view [first] remaining @ filter (\<lambda>t. \<not> hasKey (view t)) tracks))"

subsection \<open>Weighted vote\<close>

text \<open>
  One \<open>forEach\<close> over an ordering: every position that holds the track \<open>tid\<close> gets
  \<open>weight\<close> added in the track's row of scores. The orderings are as long as the row.
\<close>

definition addVotes :: "('a \<Rightarrow> mtrack) \<Rightarrow> 'a list \<Rightarrow> nat \<Rightarrow> int \<Rightarrow> int list \<Rightarrow> int list" where
  "addVotes view ordered tid weight row =
     fold (\<lambda>(t, idx) r. if m_id (view t) = tid then r[idx := r ! idx + weight] else r)
          (zip ordered [0 ..< length ordered]) row"

text \<open>\<open>scores[track.id]\<close> once the scoring loop is through.\<close>

definition scoreRow ::
  "('a \<Rightarrow> mtrack) \<Rightarrow> nat \<Rightarrow> 'a list \<Rightarrow> 'a list \<Rightarrow> 'a list \<Rightarrow> bool \<Rightarrow> nat \<Rightarrow> int list" where
  "scoreRow view n energyOrdered bpmOrdered harmonicOrdered hasAdvancedAnalysis tid =
     (let row = addVotes view bpmOrdered tid 10 (addVotes view energyOrdered tid 5 (replicate n 0))
      in if hasAdvancedAnalysis then addVotes view harmonicOrdered tid 8 row else row)"

text \<open>
  The inner \<open>forEach\<close> of the placement loop: the first unused track with the highest
  score at \<open>position\<close>; \<open>bestScore\<close> starts at \<open>-1\<close>, \<open>bestTrack\<close> at \<open>null\<close>.
\<close>

definition pickBest ::
  "('a \<Rightarrow> mtrack) \<Rightarrow> 'a list \<Rightarrow> nat set \<Rightarrow> (nat \<Rightarrow> int list) \<Rightarrow> nat \<Rightarrow> 'a option" where
  "pickBest view tracks usedTracks scores position =
     snd (fold (\<lambda>track (bestScore, bestTrack).
                  if m_id (view track) \<notin> usedTracks
                     \<and> scores (m_id (view track)) ! position > bestScore
                  then (scores (m_id (view track)) ! position, Some track)
                  else (bestScore, bestTrack))
               tracks (-1, None))"

text \<open>One round of the placement loop, on \<open>(result, usedTracks)\<close>.\<close>

definition placeAt ::
  "('a \<Rightarrow> mtrack) \<Rightarrow> 'a list \<Rightarrow> (nat \<Rightarrow> int list) \<Rightarrow> nat \<Rightarrow> 'a list \<times> nat set
     \<Rightarrow> 'a list \<times> nat set" where
  "placeAt view tracks scores position state =
     (case pickBest view tracks (snd state) scores position of
        None \<Rightarrow> state
      | Some bestTrack \<Rightarrow> (fst state @ [bestTrack], insert (m_id (view bestTrack)) (snd state)))"

text \<open>
  The placement loop and the loop after it (which appends the tracks not yet used): what
  they push to \<open>result\<close>, in order.
\<close>

definition placeAll :: "('a \<Rightarrow> mtrack) \<Rightarrow> 'a list \<Rightarrow> (nat \<Rightarrow> int list) \<Rightarrow> 'a list" where
  "placeAll view tracks scores =
     (let (result, usedTracks) = fold (placeAt view tracks scores) [0 ..< length tracks] ([], {})
      in result @ filter (\<lambda>track. m_id (view track) \<notin> usedTracks) tracks)"

definition annotate :: "track \<Rightarrow> mtrack" where
  "annotate t =
     \<lparr> m_source = t,
       m_energy = estimateTrackEnergy t,
       m_bpm = num_or (t_bpm t) 120,
       m_key = str_or (case rhythmOf t of None \<Rightarrow> None | Some r \<Rightarrow> r_key r) ''C'',
       m_scale = str_or (case rhythmOf t of None \<Rightarrow> None | Some r \<Rightarrow> r_scale r) ''major'' \<rparr>"

text \<open>
  \<open>calculateMixOrder\<close>, on objects as values. \<open>None\<close>: the call does not return (the
  energy curve's loop never leaves).
\<close>

definition calculateMixOrder :: "track list \<Rightarrow> track list option" where
  "calculateMixOrder analyzedTracks =
     (if length analyzedTracks < 3 then Some (sort_key (\<lambda>t. num_or (t_bpm t) 120) analyzedTracks)
      else
        (let hasAdvancedAnalysis = (\<exists>t \<in> set analyzedTracks. t_advancedAnalysis t \<noteq> None);
             tracks = map annotate analyzedTracks
         in case createEnergyCurve id tracks of
              None \<Rightarrow> None
            | Some energyOrdered \<Rightarrow>
                (let bpmOrdered = minimizeBpmJumps id tracks;
                     harmonicOrdered = (if hasAdvancedAnalysis then harmonicMixing id tracks
                                        else tracks);
                     scores = scoreRow id (length tracks) energyOrdered bpmOrdered harmonicOrdered
                                hasAdvancedAnalysis
                 in Some (map toObject (placeAll id tracks scores)))))"

text \<open>
  The state \<open>(result, usedTracks)\<close> of the placement loop is well formed: the used ids
  are those of the placed tracks, which are tracks of the input, each placed once.
\<close>

definition placed :: "('a \<Rightarrow> mtrack) \<Rightarrow> 'a list \<Rightarrow> 'a list \<times> nat set \<Rightarrow> bool" where
  "placed view tracks state =
     (snd state = (\<lambda>t. m_id (view t)) ` set (fst state) \<and> set (fst state) \<subseteq> set tracks
      \<and> distinct (map (\<lambda>t. m_id (view t)) (fst state)))"

section \<open>Player (AudioMixer)\<close>

text \<open>
  The player keeps, per track of the mix, an audio element, three equaliser filters and a
  gain node, in parallel arrays that \<open>createAudioElements\<close> fills together, one entry
  per track, and that nothing else resizes; \<open>chains\<close> holds the entries of one index
  side by side. Gains, times and rates are reals.

  An audio parameter has the value last assigned to \<open>.value\<close> and the automation
  events scheduled on it. Assigning \<open>.value\<close> leaves the scheduled events in place; only
  \<open>cancelScheduledValues\<close> would remove them, and the player never calls it.
\<close>

datatype automation = SetValueAtTime real real | LinearRampToValueAtTime real real

record param =
  p_value :: real
  p_events :: "automation list"

record audio =
  paused :: bool
  currentTime :: real
  playbackRate :: real

record chain =
  gain :: param
  lowEQ :: param
  midEQ :: param
  highEQ :: param
  element :: audio
  tempoAdjustment :: real

text \<open>
  The callbacks the player hands to \<open>setTimeout\<close> and \<open>setInterval\<close>, with the values
  they close over: the end of a transition (outgoing and incoming index), the start of
  the tempo return (incoming index, tempo ratio, transition duration) and one step of it
  (incoming index, start ratio, steps done).
\<close>

datatype callback =
    TransitionEnd nat nat
  | TempoReturn nat real int
  | TempoStep nat real nat

text \<open>
  The state of the player. \<open>clock\<close> is \<open>audioContext.currentTime\<close> in seconds; \<open>timers\<close>
  are the pending callbacks with their delays in milliseconds. The page's elements
  (buttons, progress bar, visualiser) are not part of it.
\<close>

record mixer =
  mx_tracks :: "track list"
  mx_transitions :: "transition list"
  currentTrackIndex :: nat
  isPlaying :: bool
  isCrossfading :: bool
  beatmatchingEnabled :: bool
  autoHarmonicMixing :: bool
  defaultTransitionTime :: int
  chains :: "chain list"
  clock :: real
  timers :: "(real \<times> callback) list"

text \<open>Updates of one chain; the caller has checked that the index has a chain.\<close>

definition setGain :: "nat \<Rightarrow> real \<Rightarrow> mixer \<Rightarrow> mixer" where
  "setGain i v m = m\<lparr> chains := (chains m)[i := (chains m ! i)\<lparr> gain := (gain (chains m ! i))\<lparr> p_value := v \<rparr> \<rparr>] \<rparr>"

definition setLowEQ :: "nat \<Rightarrow> real \<Rightarrow> mixer \<Rightarrow> mixer" where
  "setLowEQ i v m = m\<lparr> chains := (chains m)[i := (chains m ! i)\<lparr> lowEQ := (lowEQ (chains m ! i))\<lparr> p_value := v \<rparr> \<rparr>] \<rparr>"

definition setMidEQ :: "nat \<Rightarrow> real \<Rightarrow> mixer \<Rightarrow> mixer" where
  "setMidEQ i v m = m\<lparr> chains := (chains m)[i := (chains m ! i)\<lparr> midEQ := (midEQ (chains m ! i))\<lparr> p_value := v \<rparr> \<rparr>] \<rparr>"

definition setHighEQ :: "nat \<Rightarrow> real \<Rightarrow> mixer \<Rightarrow> mixer" where
  "setHighEQ i v m = m\<lparr> chains := (chains m)[i := (chains m ! i)\<lparr> highEQ := (highEQ (chains m ! i))\<lparr> p_value := v \<rparr> \<rparr>] \<rparr>"

definition scheduleGain :: "nat \<Rightarrow> automation \<Rightarrow> mixer \<Rightarrow> mixer" where
  "scheduleGain i e m = m\<lparr> chains := (chains m)[i := (chains m ! i)\<lparr> gain := (gain (chains m ! i))\<lparr> p_events := p_events (gain (chains m ! i)) @ [e] \<rparr> \<rparr>] \<rparr>"

definition scheduleLowEQ :: "nat \<Rightarrow> automation \<Rightarrow> mixer \<Rightarrow> mixer" where
  "scheduleLowEQ i e m = m\<lparr> chains := (chains m)[i := (chains m ! i)\<lparr> lowEQ := (lowEQ (chains m ! i))\<lparr> p_events := p_events (lowEQ (chains m ! i)) @ [e] \<rparr> \<rparr>] \<rparr>"

definition scheduleMidEQ :: "nat \<Rightarrow> automation \<Rightarrow> mixer \<Rightarrow> mixer" where
  "scheduleMidEQ i e m = m\<lparr> chains := (chains m)[i := (chains m ! i)\<lparr> midEQ := (midEQ (chains m ! i))\<lparr> p_events := p_events (midEQ (chains m ! i)) @ [e] \<rparr> \<rparr>] \<rparr>"

definition scheduleHighEQ :: "nat \<Rightarrow> automation \<Rightarrow> mixer \<Rightarrow> mixer" where
  "scheduleHighEQ i e m = m\<lparr> chains := (chains m)[i := (chains m ! i)\<lparr> highEQ := (highEQ (chains m ! i))\<lparr> p_events := p_events (highEQ (chains m ! i)) @ [e] \<rparr> \<rparr>] \<rparr>"

definition setElement :: "nat \<Rightarrow> (audio \<Rightarrow> audio) \<Rightarrow> mixer \<Rightarrow> mixer" where
  "setElement i f m = m\<lparr> chains := (chains m)[i := (chains m ! i)\<lparr> element := f (element (chains m ! i)) \<rparr>] \<rparr>"

definition setTempoAdjustment :: "nat \<Rightarrow> real \<Rightarrow> mixer \<Rightarrow> mixer" where
  "setTempoAdjustment i v m = m\<lparr> chains := (chains m)[i := (chains m ! i)\<lparr> tempoAdjustment := v \<rparr>] \<rparr>"

text \<open>
  Reading \<open>this.audioElements[i]\<close>, \<open>this.gainNodes[i]\<close> or a filter at an index that
  has no chain gives \<open>undefined\<close>, and the method call or property access on it throws a
  TypeError. The functions below check the indices they touch first and throw before
  they change anything; the state a throwing call leaves behind is not modelled.
\<close>

definition hasChain :: "mixer \<Rightarrow> nat \<Rightarrow> bool" where
  "hasChain m i = (i < length (chains m))"

text \<open>The chain \<open>createAudioElements\<close> builds for the track at \<open>index\<close>.\<close>

definition newChain :: "nat \<Rightarrow> chain" where
  "newChain index =
     \<lparr> gain = \<lparr> p_value = (if index = 0 then 1 else 0), p_events = [] \<rparr>,
       lowEQ = \<lparr> p_value = 0, p_events = [] \<rparr>,
       midEQ = \<lparr> p_value = 0, p_events = [] \<rparr>,
       highEQ = \<lparr> p_value = 0, p_events = [] \<rparr>,
       element = \<lparr> paused = True, currentTime = 0, playbackRate = 1 \<rparr>,
       tempoAdjustment = 1 \<rparr>"

text \<open>
  \<open>new AudioMixer()\<close>: the state the constructor sets; \<open>t\<close> is the time the audio
  context reads once \<open>initialize\<close> has created it.
\<close>

definition AudioMixer :: "real \<Rightarrow> mixer" where
  "AudioMixer t =
     \<lparr> mx_tracks = [], mx_transitions = [], currentTrackIndex = 0,
       isPlaying = False, isCrossfading = False, beatmatchingEnabled = True,
       autoHarmonicMixing = True, defaultTransitionTime = 5000,
       chains = [], clock = t, timers = [] \<rparr>"

text \<open>
  \<open>stop\<close> pauses and rewinds every element and clears the two flags. It clears the
  progress interval only: the callbacks of a transition stay pending.
\<close>

definition stop :: "mixer \<Rightarrow> mixer" where
  "stop m =
     m\<lparr> isPlaying := False, isCrossfading := False,
        chains := map (\<lambda>c. c\<lparr> element := (element c)\<lparr> paused := True, currentTime := 0 \<rparr> \<rparr>)
                    (chains m) \<rparr>"

text \<open>
  \<open>initialize(mixData)\<close>, on a new player or on one that holds a mix already: it
  stops the player, stores the mix, makes the first track current and has
  \<open>createAudioElements\<close> replace every chain.
\<close>

definition initialize :: "track list \<Rightarrow> transition list \<Rightarrow> mixer \<Rightarrow> mixer" where
  "initialize mixTracks mixTransitions m =
     (stop m)\<lparr> mx_tracks := mixTracks, mx_transitions := mixTransitions,
               currentTrackIndex := 0,
               chains := map newChain [0 ..< length mixTracks] \<rparr>"

text \<open>
  \<open>adjustTempo\<close>: no SoundTouch processor is ever created (every entry of
  \<open>soundTouchProcessors\<close> is \<open>null\<close>), so the playback rate is set.
\<close>

definition adjustTempo :: "real \<Rightarrow> mixer \<Rightarrow> error + mixer" where
  "adjustTempo tempoRatio m =
     (let i = currentTrackIndex m
      in if \<not> hasChain m i then Inl TypeError
         else Inr (setElement i (\<lambda>a. a\<lparr> playbackRate := tempoRatio \<rparr>)
                    (setTempoAdjustment i tempoRatio m)))"

definition play :: "mixer \<Rightarrow> error + mixer" where
  "play m =
     (let i = currentTrackIndex m
      in if \<not> hasChain m i then Inl TypeError
         else
           (let m1 = setElement i (\<lambda>a. a\<lparr> paused := False \<rparr>) (m\<lparr> isPlaying := True \<rparr>)
            in if tempoAdjustment (chains m1 ! i) \<noteq> 1
               then adjustTempo (tempoAdjustment (chains m1 ! i)) m1
               else Inr m1))"

definition resetTrackEffects :: "nat \<Rightarrow> mixer \<Rightarrow> error + mixer" where
  "resetTrackEffects index m =
     (if \<not> hasChain m index then Inl TypeError
      else Inr (setGain index 0
                 (setTempoAdjustment index 1
                   (setElement index (\<lambda>a. a\<lparr> playbackRate := 1 \<rparr>)
                     (setHighEQ index 0 (setMidEQ index 0 (setLowEQ index 0 m)))))))"

definition nextTrack :: "mixer \<Rightarrow> error + mixer" where
  "nextTrack m =
     (if length (mx_tracks m) \<le> 1 then Inr m
      else
        (let currentIndex = currentTrackIndex m;
             nextIndex = (currentIndex + 1) mod length (mx_tracks m)
         in if hasChain m currentIndex \<and> hasChain m nextIndex then
              (case resetTrackEffects currentIndex
                      (setGain currentIndex 0
                        (setElement currentIndex (\<lambda>a. a\<lparr> paused := True \<rparr>) m)) of
                 Inl e \<Rightarrow> Inl e
               | Inr m1 \<Rightarrow>
                   (let m2 = (setGain nextIndex 1
                               (setElement nextIndex (\<lambda>a. a\<lparr> currentTime := 0 \<rparr>) m1))
                               \<lparr> currentTrackIndex := nextIndex \<rparr>
                    in if isPlaying m2 then
                         (let m3 = setElement nextIndex (\<lambda>a. a\<lparr> paused := False \<rparr>) m2
                          in if tempoAdjustment (chains m3 ! nextIndex) \<noteq> 1
                             then adjustTempo (tempoAdjustment (chains m3 ! nextIndex)) m3
                             else Inr m3)
                       else Inr m2))
            else Inl TypeError))"

subsection \<open>Volume curves\<close>

definition linearCrossfade :: "nat \<Rightarrow> nat \<Rightarrow> real \<Rightarrow> real \<Rightarrow> mixer \<Rightarrow> error + mixer" where
  "linearCrossfade fromIndex toIndex startTime endTime m =
     (if hasChain m fromIndex \<and> hasChain m toIndex then
        Inr (scheduleGain toIndex (LinearRampToValueAtTime 1 endTime)
              (scheduleGain fromIndex (LinearRampToValueAtTime 0 endTime)
                (scheduleGain toIndex (SetValueAtTime 0 startTime)
                  (scheduleGain fromIndex (SetValueAtTime 1 startTime) m))))
      else Inl TypeError)"

text \<open>One round of the loop of \<open>equalPowerCrossfade\<close>, for \<open>i\<close> from 0 to 100.\<close>

definition equalPowerStep :: "nat \<Rightarrow> nat \<Rightarrow> real \<Rightarrow> real \<Rightarrow> nat \<Rightarrow> mixer \<Rightarrow> mixer" where
  "equalPowerStep fromIndex toIndex startTime duration i m =
     (let time = startTime + (real i / 100) * duration;
          fadeOutGain = cos ((real i / 100) * pi / 2);
          fadeInGain = sin ((real i / 100) * pi / 2)
      in scheduleGain toIndex (LinearRampToValueAtTime fadeInGain time)
           (scheduleGain fromIndex (LinearRampToValueAtTime fadeOutGain time) m))"

definition equalPowerCrossfade :: "nat \<Rightarrow> nat \<Rightarrow> real \<Rightarrow> real \<Rightarrow> mixer \<Rightarrow> error + mixer" where
  "equalPowerCrossfade fromIndex toIndex startTime endTime m =
     (if hasChain m fromIndex \<and> hasChain m toIndex then
        (let duration = endTime - startTime
         in Inr (fold (equalPowerStep fromIndex toIndex startTime duration) [0 ..< 101]
                   (scheduleGain toIndex (SetValueAtTime 0 startTime)
                     (scheduleGain fromIndex (SetValueAtTime 1 startTime) m))))
      else Inl TypeError)"

definition cutEQTransition :: "nat \<Rightarrow> nat \<Rightarrow> real \<Rightarrow> real \<Rightarrow> mixer \<Rightarrow> error + mixer" where
  "cutEQTransition fromIndex toIndex startTime duration m =
     (if hasChain m fromIndex \<and> hasChain m toIndex then
        Inr (scheduleGain fromIndex (LinearRampToValueAtTime 0 (startTime + duration))
              (scheduleGain fromIndex (SetValueAtTime 1 (startTime + duration * 0.5))
                (scheduleLowEQ fromIndex (LinearRampToValueAtTime (-12) (startTime + duration * 0.75))
                  (scheduleLowEQ fromIndex (SetValueAtTime 0 (startTime + duration * 0.5))
                    (scheduleGain toIndex (LinearRampToValueAtTime 1 (startTime + duration))
                      (scheduleGain toIndex (LinearRampToValueAtTime 0.7 (startTime + duration * 0.5))
                        (scheduleGain toIndex (SetValueAtTime 0 startTime)
                          (scheduleMidEQ fromIndex (LinearRampToValueAtTime (-9) (startTime + duration * 0.5))
                            (scheduleMidEQ fromIndex (SetValueAtTime 0 startTime)
                              (scheduleHighEQ fromIndex (LinearRampToValueAtTime (-12) (startTime + duration * 0.25))
                                (scheduleHighEQ fromIndex (SetValueAtTime 0 startTime) m)))))))))))
      else Inl TypeError)"

definition performVolumeTransition ::
  "string \<Rightarrow> int \<Rightarrow> nat \<Rightarrow> nat \<Rightarrow> mixer \<Rightarrow> error + mixer" where
  "performVolumeTransition type duration fromIndex toIndex m =
     (let startTime = clock m;
          endTime = startTime + real_of_int duration / 1000
      in if type = ''beatmatch_blend'' \<or> type = ''beatmatch''
           then equalPowerCrossfade fromIndex toIndex startTime endTime m
         else if type = ''cut_eq''
           then cutEQTransition fromIndex toIndex startTime (real_of_int duration / 1000) m
         else if type = ''long_fade''
           then linearCrossfade fromIndex toIndex startTime endTime m
         else linearCrossfade fromIndex toIndex startTime endTime m)"

subsection \<open>Transitions\<close>

definition prepareBeatsyncTransition :: "transition \<Rightarrow> nat \<Rightarrow> nat \<Rightarrow> mixer \<Rightarrow> error + mixer" where
  "prepareBeatsyncTransition transition currentIndex nextIndex m =
     (let currentBpm = num_or (sourceBpm transition) 120;
          nextBpm = num_or (targetBpm transition) 120
      in if \<bar>nextBpm - currentBpm\<bar> > 2 then
           (let tempoRatio = real_of_int currentBpm / real_of_int nextBpm;
                duration = num_or (Some (transitionDuration transition)) (defaultTransitionTime m)
            in if \<not> hasChain m nextIndex then Inl TypeError
               else Inr ((setElement nextIndex (\<lambda>a. a\<lparr> playbackRate := tempoRatio \<rparr>)
                           (setTempoAdjustment nextIndex tempoRatio m))
                         \<lparr> timers := timers m
                              @ [(real_of_int duration / 2, TempoReturn nextIndex tempoRatio duration)] \<rparr>))
         else Inr m)"

definition prepareHarmonicTransition :: "transition \<Rightarrow> nat \<Rightarrow> nat \<Rightarrow> mixer \<Rightarrow> error + mixer" where
  "prepareHarmonicTransition transition currentIndex nextIndex m =
     (if keyCompatibility transition = Some ''clash'' then
        (if \<not> hasChain m nextIndex then Inl TypeError else Inr (setMidEQ nextIndex (-3) m))
      else if keyCompatibility transition = Some ''compatible''
              \<or> keyCompatibility transition = Some ''perfect'' then
        (if \<not> hasChain m nextIndex then Inl TypeError else Inr (setHighEQ nextIndex 2 m))
      else Inr m)"

text \<open>
  \<open>startAdvancedTransition\<close>. With no track the next index is \<open>NaN\<close> and the first
  access throws.
\<close>

definition startAdvancedTransition :: "transition \<Rightarrow> mixer \<Rightarrow> error + mixer" where
  "startAdvancedTransition transition m =
     (let currentIndex = currentTrackIndex m;
          nextIndex = (currentIndex + 1) mod length (mx_tracks m);
          type = (if transitionType transition = [] then ''fade'' else transitionType transition);
          duration = num_or (Some (transitionDuration transition)) (defaultTransitionTime m)
      in if mx_tracks m \<noteq> [] \<and> hasChain m nextIndex then
           andThen
             (andThen
               (andThen (Inr (setElement nextIndex (\<lambda>a. a\<lparr> paused := False \<rparr>) m))
                  (\<lambda>m1. if beatmatchingEnabled m1 \<and> abs_gt (bpmDifference transition) 2
                         then prepareBeatsyncTransition transition currentIndex nextIndex m1
                         else Inr m1))
               (\<lambda>m2. if autoHarmonicMixing m2 \<and> str_or (keyCompatibility transition) [] \<noteq> []
                      then prepareHarmonicTransition transition currentIndex nextIndex m2
                      else Inr m2))
             (\<lambda>m3. andThen (performVolumeTransition type duration currentIndex nextIndex m3)
                      (\<lambda>m4. Inr (m4\<lparr> timers := timers m4
                                       @ [(real_of_int duration, TransitionEnd currentIndex nextIndex)] \<rparr>)))
         else Inl TypeError)"

text \<open>
  The body of each callback; \<open>period\<close> is the delay it was registered with, after which
  an interval's callback runs again.
\<close>

definition runCallback :: "real \<Rightarrow> callback \<Rightarrow> mixer \<Rightarrow> error + mixer" where
  "runCallback period c m =
     (case c of
        TransitionEnd currentIndex nextIndex \<Rightarrow>
          (if \<not> hasChain m currentIndex then Inl TypeError
           else andThen (resetTrackEffects currentIndex
                           (setElement currentIndex (\<lambda>a. a\<lparr> paused := True \<rparr>) m))
                  (\<lambda>m1. Inr (m1\<lparr> currentTrackIndex := nextIndex, isCrossfading := False \<rparr>)))
      | TempoReturn nextIndex tempoRatio duration \<Rightarrow>
          Inr (m\<lparr> timers := timers m
                     @ [(real_of_int (duration div 20), TempoStep nextIndex tempoRatio 0)] \<rparr>)
      | TempoStep nextIndex startValue done \<Rightarrow>
          (let step = done + 1
           in if \<not> hasChain m nextIndex then Inl TypeError
              else if step \<ge> 10 then
                Inr (setTempoAdjustment nextIndex 1
                      (setElement nextIndex (\<lambda>a. a\<lparr> playbackRate := 1 \<rparr>) m))
              else
                (let newRatio = startValue + (1 - startValue) * (real step / 10)
                 in Inr ((setTempoAdjustment nextIndex newRatio
                           (setElement nextIndex (\<lambda>a. a\<lparr> playbackRate := newRatio \<rparr>) m))
                         \<lparr> timers := timers m @ [(period, TempoStep nextIndex startValue step)] \<rparr>))))"

text \<open>
  The event loop runs the pending callback number \<open>k\<close> once it is due: the callback
  leaves the list and its body runs. (An interval's callback puts its next round back.)
\<close>

definition fire :: "nat \<Rightarrow> mixer \<Rightarrow> error + mixer" where
  "fire k m =
     (if k < length (timers m)
      then runCallback (fst (timers m ! k)) (snd (timers m ! k))
             (m\<lparr> timers := take k (timers m) @ drop (Suc k) (timers m) \<rparr>)
      else Inr m)"

text \<open>
  The \<open>timeupdate\<close> listener of the chain at \<open>index\<close>, with the element's position in
  milliseconds: it starts the transition of the current track when the position is
  within 500 ms after the transition point.
\<close>

definition onTimeUpdate :: "nat \<Rightarrow> real \<Rightarrow> mixer \<Rightarrow> error + mixer" where
  "onTimeUpdate index currentTimeMs m =
     (if index = currentTrackIndex m \<and> index < length (mx_tracks m) then
        (case find (\<lambda>t. fromTrack t = t_id (mx_tracks m ! index)) (mx_transitions m) of
           None \<Rightarrow> Inr m
         | Some transition \<Rightarrow>
             if isCrossfading m then Inr m
             else
               (case transitionPoint transition of
                  None \<Rightarrow> Inr m
                | Some p \<Rightarrow>
                    if real_of_int p \<le> currentTimeMs \<and> currentTimeMs < real_of_int p + 500
                    then startAdvancedTransition transition (m\<lparr> isCrossfading := True \<rparr>)
                    else Inr m))
      else Inr m)"

section \<open>Mix order planner on the store\<close>

text \<open>
  The same function with the arrays and objects it works on laid out in a store, to follow
  what it writes. An array is a cell of \<open>arrays\<close> and holds references; a reference is an
  index into \<open>trackObjects\<close> (the caller's track objects) or into \<open>copyObjects\<close> (the
  copies the function builds). A new array or object takes the next free cell.
\<close>

record store =
  arrays :: "nat list list"
  trackObjects :: "track list"
  copyObjects :: "mtrack list"

text \<open>An array literal, and an assignment to the elements of an array.\<close>

definition newArray :: "nat list \<Rightarrow> store \<Rightarrow> nat \<times> store" where
  "newArray elems s = (length (arrays s), s\<lparr> arrays := arrays s @ [elems] \<rparr>)"

definition setArray :: "nat \<Rightarrow> nat list \<Rightarrow> store \<Rightarrow> store" where
  "setArray a elems s = s\<lparr> arrays := (arrays s)[a := elems] \<rparr>"

text \<open>An object literal \<open>{...track, energy, bpm, key, scale}\<close>.\<close>

definition newCopy :: "mtrack \<Rightarrow> store \<Rightarrow> nat \<times> store" where
  "newCopy obj s = (length (copyObjects s), s\<lparr> copyObjects := copyObjects s @ [obj] \<rparr>)"

text \<open>\<open>[...a]\<close>, \<open>a.sort(compare)\<close> (in place), \<open>a.slice(k)\<close> and \<open>a.filter(keep)\<close>.\<close>

definition spread :: "nat \<Rightarrow> store \<Rightarrow> nat \<times> store" where
  "spread a s = newArray (arrays s ! a) s"

definition sortArray :: "(nat \<Rightarrow> int) \<Rightarrow> nat \<Rightarrow> store \<Rightarrow> store" where
  "sortArray key a s = setArray a (sort_key key (arrays s ! a)) s"

definition sliceFrom :: "nat \<Rightarrow> nat \<Rightarrow> store \<Rightarrow> nat \<times> store" where
  "sliceFrom a k s = newArray (drop k (arrays s ! a)) s"

definition filterArray :: "(nat \<Rightarrow> bool) \<Rightarrow> nat \<Rightarrow> store \<Rightarrow> nat \<times> store" where
  "filterArray keep a s = newArray (filter keep (arrays s ! a)) s"

text \<open>The copy behind a reference.\<close>

definition copyAt :: "store \<Rightarrow> nat \<Rightarrow> mtrack" where
  "copyAt s p = copyObjects s ! p"

text \<open>\<open>[...analyzedTracks].map(track => ({...}))\<close>: one new object per element, then the new array.\<close>

definition annotateInto :: "nat \<Rightarrow> nat list \<times> store \<Rightarrow> nat list \<times> store" where
  "annotateInto p state =
     (let (r, s') = newCopy (annotate (trackObjects (snd state) ! p)) (snd state)
      in (fst state @ [r], s'))"

definition mapAnnotate :: "nat \<Rightarrow> store \<Rightarrow> nat \<times> store" where
  "mapAnnotate a s =
     (let (refs, s1) = fold annotateInto (arrays s ! a) ([], s)
      in newArray refs s1)"

text \<open>
  The three orderings. Each loop pushes to \<open>result\<close> (and splices \<open>remaining\<close>), arrays
  the function has just made; the model writes what the loop leaves in them: in
  \<open>result\<close> what the loop of the ordering computes, in \<open>remaining\<close> nothing.
\<close>

definition storeCreateEnergyCurve :: "nat \<Rightarrow> store \<Rightarrow> nat option \<times> store" where
  "storeCreateEnergyCurve tracks s =
     (let (sortedByEnergy, s1) = spread tracks s;
          s2 = sortArray (\<lambda>p. m_energy (copyAt s1 p)) sortedByEnergy s1;
          midpoint = length (arrays s2 ! sortedByEnergy) div 2;
          (result, s3) = newArray [] s2;
          s4 = setArray result (arrays s3 ! result @ [arrays s3 ! sortedByEnergy ! midpoint]) s3
      in if arrays s4 ! tracks = [] then (None, s4)
         else
           (case energyCurveLoop (arrays s4 ! sortedByEnergy) (length (arrays s4 ! tracks))
                   (arrays s4 ! result) (midpoint + 1) (int midpoint - 1) True of
              None \<Rightarrow> (None, s4)
            | Some pushed \<Rightarrow> (Some result, setArray result pushed s4)))"

definition storeMinimizeBpmJumps :: "nat \<Rightarrow> store \<Rightarrow> nat \<times> store" where
  "storeMinimizeBpmJumps tracks s =
     (let (sortedByBpm, s1) = spread tracks s;
          s2 = sortArray (\<lambda>p. m_bpm (copyAt s1 p)) sortedByBpm s1;
          (result, s3) = newArray (take 1 (arrays s2 ! sortedByBpm)) s2;
          (remaining, s4) = sliceFrom sortedByBpm 1 s3;
          pushed = bpmLoop (copyAt s4) (arrays s4 ! result) (arrays s4 ! remaining)
      in (result, setArray remaining [] (setArray result pushed s4)))"

definition storeHarmonicMixing :: "nat \<Rightarrow> store \<Rightarrow> nat \<times> store" where
  "storeHarmonicMixing tracks s =
     (let (tracksWithKeys, s1) = filterArray (\<lambda>p. hasKey (copyAt s p)) tracks s
      in if 2 * length (arrays s1 ! tracksWithKeys) < length (arrays s1 ! tracks) then (tracks, s1)
         else
           (let (result, s2) = newArray (take 1 (arrays s1 ! tracksWithKeys)) s1;
                (remaining, s3) = sliceFrom tracksWithKeys 1 s2;
                pushed = harmonicLoop (copyAt s3) (arrays s3 ! result) (arrays s3 ! remaining);
                s4 = setArray remaining [] (setArray result pushed s3);
                (missingTracks, s5) = filterArray (\<lambda>p. \<not> hasKey (copyAt s4 p)) tracks s4
            in newArray (arrays s5 ! result @ arrays s5 ! missingTracks) s5))"

text \<open>
  \<open>calculateMixOrder\<close> on the array at \<open>analyzedTracks\<close>: the array it returns (if it
  returns) and the store it leaves. The scores and the set of used ids hold numbers
  only and are values here.
\<close>

definition storeCalculateMixOrder :: "nat \<Rightarrow> store \<Rightarrow> nat option \<times> store" where
  "storeCalculateMixOrder analyzedTracks s =
     (if length (arrays s ! analyzedTracks) < 3 then
        (let (copy, s1) = spread analyzedTracks s
         in (Some copy, sortArray (\<lambda>p. num_or (t_bpm (trackObjects s1 ! p)) 120) copy s1))
      else
        (let hasAdvancedAnalysis =
               (\<exists>p \<in> set (arrays s ! analyzedTracks). t_advancedAnalysis (trackObjects s ! p) \<noteq> None);
             (copy, s1) = spread analyzedTracks s;
             (tracks, s2) = mapAnnotate copy s1
         in case storeCreateEnergyCurve tracks s2 of
              (None, s3) \<Rightarrow> (None, s3)
            | (Some energyOrdered, s3) \<Rightarrow>
                (let (bpmOrdered, s4) = storeMinimizeBpmJumps tracks s3;
                     (harmonicOrdered, s5) =
                        (if hasAdvancedAnalysis then storeHarmonicMixing tracks s4 else (tracks, s4));
                     (finalOrder, s6) = spread tracks s5;
                     scores = scoreRow (copyAt s6) (length (arrays s6 ! tracks))
                                (arrays s6 ! energyOrdered) (arrays s6 ! bpmOrdered)
                                (arrays s6 ! harmonicOrdered) hasAdvancedAnalysis;
                     (result, s7) = newArray [] s6
                 in (Some result,
                     setArray result (arrays s7 ! result @ placeAll (copyAt s7) (arrays s7 ! tracks) scores)
                       s7))))"

text \<open>
  Every array and every object of the store \<open>s\<close> is in \<open>s'\<close> what it was in \<open>s\<close>.
\<close>

definition unchanged :: "store \<Rightarrow> store \<Rightarrow> bool" where
  "unchanged s s' =
     (take (length (arrays s)) (arrays s') = arrays s
      \<and> trackObjects s' = trackObjects s
      \<and> take (length (copyObjects s)) (copyObjects s') = copyObjects s)"

section \<open>Example inputs and observations\<close>

text \<open>A track as the catalogue returns it: id, tempo and length, no analysis.\<close>

definition plainTrack :: "nat \<Rightarrow> int \<Rightarrow> rat \<Rightarrow> track" where
  "plainTrack i b d =
     \<lparr> t_id = i, t_bpm = Some b, t_duration = Some d, t_uploaded = False, t_filePath = None,
       t_analyzed = Some True, t_advancedAnalysis = None, t_energy = None, t_key = None,
       t_scale = None \<rparr>"

text \<open>
  An analysis as \<open>analyzeTrackFile\<close> returns it for a file with 64 detected beats, one
  every 500 ms.
\<close>

definition exampleAnalysis :: "int \<Rightarrow> string \<Rightarrow> string \<Rightarrow> analysis" where
  "exampleAnalysis b k sc =
     \<lparr> a_duration = None,
       a_rhythm = Some \<lparr> r_bpm = Some b, r_beats = Some (map (\<lambda>n. 500 * int n) [0 ..< 64]),
                         r_key = Some k, r_scale = Some sc, r_energyBands = Some [] \<rparr> \<rparr>"

definition analysedTrack :: "nat \<Rightarrow> int \<Rightarrow> rat \<Rightarrow> string \<Rightarrow> string \<Rightarrow> track" where
  "analysedTrack i b d k sc =
     \<lparr> t_id = i, t_bpm = Some b, t_duration = Some d, t_uploaded = True,
       t_filePath = Some ''uploads/track.mp3'', t_analyzed = Some True,
       t_advancedAnalysis = Some (exampleAnalysis b k sc), t_energy = None, t_key = None,
       t_scale = None \<rparr>"


text \<open>
  A mix of three plain tracks as \<open>generateMix\<close> would plan it (two linear fades of
  8 s), loaded into a new player with the audio clock at 0.
\<close>

definition fadeTransition :: "nat \<Rightarrow> nat \<Rightarrow> string \<Rightarrow> transition" where
  "fadeTransition a b type =
     \<lparr> fromTrack = a, toTrack = b, transitionPoint = Some 160000, bpmDifference = Some 10,
       sourceKey = None, targetKey = None, keyCompatibility = None, transitionType = type,
       transitionDuration = 8000, sourceBpm = None, targetBpm = None \<rparr>"

definition exampleMixer :: mixer where
  "exampleMixer =
     initialize [plainTrack 1 120 200000, plainTrack 2 130 200000, plainTrack 3 140 200000]
       [fadeTransition 1 2 ''fade'', fadeTransition 2 3 ''fade''] (AudioMixer 0)"

text \<open>The gain values and the scheduled gain events of a player, chain by chain.\<close>

definition gainValues :: "mixer \<Rightarrow> real list" where
  "gainValues m = map (\<lambda>c. p_value (gain c)) (chains m)"

definition gainEvents :: "mixer \<Rightarrow> automation list list" where
  "gainEvents m = map (\<lambda>c. p_events (gain c)) (chains m)"

text \<open>The automation scheduled on the four parameters of a chain.\<close>

definition scheduled :: "chain \<Rightarrow> automation list list" where
  "scheduled c = [p_events (gain c), p_events (lowEQ c), p_events (midEQ c), p_events (highEQ c)]"

text \<open>
  The player is well formed when every track has its chain and the current index is a
  track's; a chain is neutral when its gain is 0, its three bands are flat and its tempo
  is 1.
\<close>

definition wellFormed :: "mixer \<Rightarrow> bool" where
  "wellFormed m = (length (chains m) = length (mx_tracks m)
                   \<and> currentTrackIndex m < length (mx_tracks m))"

definition neutral :: "chain \<Rightarrow> bool" where
  "neutral c = (p_value (gain c) = 0 \<and> p_value (lowEQ c) = 0 \<and> p_value (midEQ c) = 0
                \<and> p_value (highEQ c) = 0 \<and> playbackRate (element c) = 1
                \<and> tempoAdjustment c = 1)"

text \<open>
  The example mix playing, 160.1 s into its first track: the \<open>timeupdate\<close> event has
  just started the transition to the second track. Then the user presses "next" once,
  and then once more before the transition's timer runs.
\<close>

definition duringTransition :: "error + mixer" where
  "duringTransition = andThen (play exampleMixer) (onTimeUpdate 0 160100)"

definition afterSkip :: "error + mixer" where
  "afterSkip = andThen duringTransition nextTrack"

definition afterStaleCallback :: "error + mixer" where
  "afterStaleCallback = andThen (andThen afterSkip nextTrack) (fire 0)"



text \<open>
  An uploaded file that cannot be decoded, with the catalogue unreachable, and the track
  that points to it.
\<close>

definition undecodable :: analysisEnv where
  "undecodable =
     \<lparr> fileExists = (\<lambda>path. True), mtimeMs = (\<lambda>path. 0),
       decodeAndAnalyze = (\<lambda>path. Inl (Error ''Unable to decode audio data'')) \<rparr>"

definition unreachable :: "nat \<Rightarrow> scReply" where
  "unreachable i = Failed (Error ''ECONNREFUSED'')"

definition uploadedTrack :: track where
  "uploadedTrack =
     \<lparr> t_id = 7, t_bpm = Some 128, t_duration = Some 200000, t_uploaded = True,
       t_filePath = Some ''uploads/track.mp3'', t_analyzed = None, t_advancedAnalysis = None,
       t_energy = None, t_key = None, t_scale = None \<rparr>"

text \<open>The caller's array of three tracks, the only array of the store.\<close>

definition exampleStore :: store where
  "exampleStore =
     \<lparr> arrays = [[0, 1, 2]],
       trackObjects = [plainTrack 1 120 200000, plainTrack 2 180 200000, plainTrack 3 122 200000],
       copyObjects = [] \<rparr>"

section \<open>Properties of double rounding\<close>

text \<open>
  \<open>bitLength\<close> and \<open>floorLog2\<close> bracket their argument between two powers of two, and
  \<open>roundHalfEven\<close> moves it by at most one half; so from \<open>1/2\<close> on \<open>toDouble\<close> moves a
  number by at most half a unit in its last place.
\<close>

lemma bitLength_bounds: "0 < x \<Longrightarrow> 2 ^ (bitLength x - 1) \<le> x \<and> x < 2 ^ bitLength x"
proof (induction x rule: bitLength.induct)
  case (1 x)
  show ?case
  proof (cases "x div 2 \<le> 0")
    case True
    then have "x = 1" using "1.prems" by linarith
    then show ?thesis by (simp add: bitLength.simps[of 1] bitLength.simps[of 0])
  next
    case False
    then have pos: "0 < x div 2" by simp
    have b: "bitLength x = Suc (bitLength (x div 2))"
      using "1.prems" by (subst bitLength.simps) simp
    have ih: "2 ^ (bitLength (x div 2) - 1) \<le> x div 2" "x div 2 < 2 ^ bitLength (x div 2)"
      using "1.IH" "1.prems" pos by simp_all
    have nz: "bitLength (x div 2) \<noteq> 0"
      using pos by (subst bitLength.simps) simp
    then obtain k where k: "bitLength (x div 2) = Suc k" by (cases "bitLength (x div 2)") auto
    have "(2::int) ^ Suc k \<le> 2 * (x div 2)" using ih(1) k by simp
    also have "\<dots> \<le> x" by presburger
    finally have lo: "(2::int) ^ (bitLength x - 1) \<le> x" by (simp add: b k)
    have "x < 2 * (x div 2 + 1)" by presburger
    also have "\<dots> \<le> 2 * 2 ^ bitLength (x div 2)" using ih(2) by simp
    finally have "x < 2 ^ bitLength x" by (simp add: b)
    with lo show ?thesis by simp
  qed
qed

lemma floorLog2_bounds:
  assumes "0 < x"
  shows "2 powi (floorLog2 x) \<le> x \<and> x < 2 powi (floorLog2 x + 1)"
proof -
  obtain p q where pq: "quotient_of x = (p, q)" by (cases "quotient_of x")
  have q: "0 < q" using quotient_of_denom_pos[OF pq] .
  have x: "x = of_int p / of_int q" using quotient_of_div[OF pq] .
  have p: "0 < p" using assms q unfolding x by (simp add: zero_less_divide_iff)
  define bp bq where "bp = bitLength p" and "bq = bitLength q"
  have bp: "2 ^ (bp - 1) \<le> p" "p < 2 ^ bp" and bq: "2 ^ (bq - 1) \<le> q" "q < 2 ^ bq"
    using bitLength_bounds[OF p] bitLength_bounds[OF q] by (simp_all add: bp_def bq_def)
  have bp0: "bp \<noteq> 0" using bp(2) p by (cases bp) auto
  have bq0: "bq \<noteq> 0" using bq(2) q by (cases bq) auto
  have rp: "(2::rat) ^ (bp - 1) \<le> of_int p" "(of_int p :: rat) < 2 ^ bp"
    using bp by (metis of_int_le_iff of_int_numeral of_int_power, metis of_int_less_iff of_int_numeral of_int_power)
  have rq: "(2::rat) ^ (bq - 1) \<le> of_int q" "(of_int q :: rat) < 2 ^ bq"
    using bq by (metis of_int_le_iff of_int_numeral of_int_power, metis of_int_less_iff of_int_numeral of_int_power)
  have qpos: "(0::rat) < of_int q" using q by simp
  define k where "k = int bp - int bq"
  have pk: "(2::rat) powi k = 2 ^ bp / 2 ^ bq"
    by (simp add: k_def power_int_diff)
  have up: "x < 2 powi (k + 1)"
  proof -
    have "x * of_int q = of_int p" using qpos by (simp add: x)
    also have "\<dots> < 2 ^ bp" by (rule rp(2))
    also have "\<dots> = 2 powi (k + 1) * 2 ^ (bq - 1)"
      using bq0 by (cases bq) (simp_all add: power_int_add pk)
    also have "\<dots> \<le> 2 powi (k + 1) * of_int q"
      using rq(1) by (simp add: mult_left_mono)
    finally show ?thesis using qpos by simp
  qed
  have lo: "2 powi (k - 1) \<le> x"
  proof -
    have "(2::rat) powi (k - 1) * of_int q \<le> 2 powi (k - 1) * 2 ^ bq"
      using rq(2) by (simp add: mult_left_mono)
    also have "\<dots> = 2 ^ (bp - 1)"
      using bp0 by (cases bp) (simp_all add: power_int_diff pk)
    also have "\<dots> \<le> of_int p" by (rule rp(1))
    also have "\<dots> = x * of_int q" using qpos by (simp add: x)
    finally show ?thesis using qpos by simp
  qed
  have fl: "floorLog2 x = (if 2 powi k \<le> x then k else k - 1)"
    by (simp add: floorLog2_def pq k_def bp_def bq_def Let_def)
  show ?thesis
    using up lo unfolding fl by (auto simp: not_le)
qed

lemma roundHalfEven_bounds:
  "of_int (roundHalfEven y) \<le> y + 1 / 2 \<and> y - 1 / 2 \<le> of_int (roundHalfEven y)
   \<and> \<lfloor>y\<rfloor> \<le> roundHalfEven y"
proof -
  define f where "f = \<lfloor>y\<rfloor>"
  have f: "of_int f \<le> y" "y < of_int f + 1" unfolding f_def by linarith+
  show ?thesis
  proof (cases "y - of_int f < 1 / 2 \<or> (y - of_int f = 1 / 2 \<and> even f)")
    case True
    then have "roundHalfEven y = f" by (simp add: roundHalfEven_def f_def Let_def)
    then show ?thesis using f True unfolding f_def[symmetric] by auto
  next
    case False
    then have r: "roundHalfEven y = f + 1" by (simp add: roundHalfEven_def f_def Let_def)
    have "1 / 2 \<le> y - of_int f" using False by auto
    then show ?thesis using f unfolding f_def[symmetric] r by simp
  qed
qed


lemma toDouble_normal:
  assumes "1 / 2 \<le> x"
  shows "\<exists>e. toDouble x = of_int (roundHalfEven (x / 2 powi e)) * 2 powi e
             \<and> 2 powi e * 2 ^ 52 \<le> x \<and> x < 2 powi e * 2 ^ 53
             \<and> toDouble x \<le> x + 2 powi e / 2 \<and> x - 2 powi e / 2 \<le> toDouble x"
proof -
  have pos: "0 < x" using assms by simp
  define k where "k = floorLog2 x"
  define e where "e = k - 52"
  have k: "2 powi k \<le> x" "x < 2 powi (k + 1)"
    using floorLog2_bounds[OF pos] by (simp_all add: k_def)
  have "- 1 \<le> k"
  proof (rule ccontr)
    assume "\<not> - 1 \<le> k"
    then have "k + 1 \<le> - 1" by simp
    then have "(2::rat) powi (k + 1) \<le> 2 powi (- 1)"
      by (intro power_int_increasing) simp_all
    then show False using k(2) assms by (simp add: power_int_minus)
  qed
  then have m: "max (floorLog2 \<bar>x\<bar> - 52) (- 1074) = e"
    using pos by (simp add: e_def k_def)
  have E: "(0::rat) < 2 powi e" by simp
  have td: "toDouble x = of_int (roundHalfEven (x / 2 powi e)) * 2 powi e"
    using pos m by (simp add: toDouble_def Let_def)
  have e52: "(2::rat) powi e * 2 ^ 52 = 2 powi k"
    by (simp add: e_def power_int_diff)
  have e53: "(2::rat) powi e * 2 ^ 53 = 2 powi (k + 1)"
    by (simp add: e_def power_int_diff power_int_add)
  note r = roundHalfEven_bounds[of "x / 2 powi e"]
  have eq1: "(x / 2 powi e + 1 / 2) * 2 powi e = x + 2 powi e / 2"
    and eq2: "(x / 2 powi e - 1 / 2) * 2 powi e = x - 2 powi e / 2"
    by (simp_all add: distrib_right left_diff_distrib)
  have "of_int (roundHalfEven (x / 2 powi e)) * 2 powi e \<le> (x / 2 powi e + 1 / 2) * 2 powi e"
    using r E by (intro mult_right_mono) simp_all
  then have up: "toDouble x \<le> x + 2 powi e / 2"
    unfolding td eq1 .
  have "(x / 2 powi e - 1 / 2) * 2 powi e \<le> of_int (roundHalfEven (x / 2 powi e)) * 2 powi e"
    using r E by (intro mult_right_mono) simp_all
  then have lo: "x - 2 powi e / 2 \<le> toDouble x"
    unfolding td eq2 .
  show ?thesis
    using td k up lo unfolding e52[symmetric] e53[symmetric] by blast
qed

text \<open>The literals \<open>0.8\<close> and \<open>0.7\<close> as doubles.\<close>

lemma toDouble_four_fifths: "toDouble (4 / 5) = 3602879701896397 / 4503599627370496"
  by code_simp

lemma toDouble_seven_tenths: "toDouble (7 / 10) = 6305039478318694 / 2 ^ 53"
  by code_simp

text \<open>
  \<open>Math.floor(d * 0.8)\<close> leaves room for the longest transition from one minute on, and
  on a whole number of milliseconds it is \<open>\<lfloor>4d/5\<rfloor>\<close>.
\<close>

lemma floor_80_percent_fits:
  assumes "60000 \<le> d"
  shows "of_int (floor_80_percent d) + 12000 \<le> d"
proof -
  define y where "y = d * (3602879701896397 / 4503599627370496)"
  have y: "1 / 2 \<le> y" using assms by (simp add: y_def)
  from toDouble_normal[OF y] obtain e where
    e: "2 powi e * 2 ^ 52 \<le> y" "toDouble y \<le> y + 2 powi e / 2"
    by blast
  have "2 powi e / 2 \<le> y / 2 ^ 53"
    using e(1) by (simp add: field_simps)
  then have "toDouble y \<le> y + y / 2 ^ 53"
    using e(2) by linarith
  then have t: "toDouble y \<le> d * (32451855365842678082635154902221 / 40564819207303340847894502572032)"
    by (simp add: y_def)
  note fl = of_int_floor_le[of "toDouble y"]
  have f: "floor_80_percent d = \<lfloor>toDouble y\<rfloor>"
    by (simp add: floor_80_percent_def toDouble_four_fifths y_def)
  show ?thesis
  proof (cases "60001 \<le> d")
    case True
    show ?thesis using fl t True unfolding f by linarith
  next
    case False
    then have "toDouble y < 48001" using t by linarith
    then have "\<lfloor>toDouble y\<rfloor> < 48001" by (simp add: floor_less_iff)
    then have "\<lfloor>toDouble y\<rfloor> \<le> 48000" by simp
    then have "(of_int \<lfloor>toDouble y\<rfloor> :: rat) \<le> 48000"
      by (metis of_int_le_iff of_int_numeral)
    then show ?thesis using assms unfolding f by linarith
  qed
qed

lemma floor_80_percent_int:
  assumes "0 < n" and "n < 2 ^ 50"
  shows "floor_80_percent (of_int n) = (4 * n) div 5"
proof -
  define y :: rat where "y = of_int n * (3602879701896397 / 4503599627370496)"
  define N where "N = (4 * n) div 5"
  have n1: "(1::rat) \<le> of_int n" using assms(1) by simp
  have n50: "(of_int n :: rat) < 2 ^ 50"
    using assms(2) by (metis of_int_less_iff of_int_numeral of_int_power)
  have y: "1 / 2 \<le> y" using n1 by (simp add: y_def)
  from toDouble_normal[OF y] obtain e where
    td: "toDouble y = of_int (roundHalfEven (y / 2 powi e)) * 2 powi e"
    and e: "2 powi e * 2 ^ 52 \<le> y" "toDouble y \<le> y + 2 powi e / 2"
    by blast
  have f: "floor_80_percent (of_int n) = \<lfloor>toDouble y\<rfloor>"
    by (simp add: floor_80_percent_def toDouble_four_fifths y_def)
  have ylt: "y < 2 ^ 50" using n50 n1 by (simp add: y_def)
  have E: "(0::rat) < 2 powi e" by simp
  have "(2::rat) powi e * 2 ^ 52 < 2 ^ 50" using e(1) ylt by simp
  then have "(2::rat) powi (e + 52) < 2 powi 50"
    by (simp add: power_int_add)
  have "e + 52 < 50"
  proof (rule ccontr)
    assume "\<not> e + 52 < 50"
    then have "(2::rat) powi 50 \<le> 2 powi (e + 52)"
      by (intro power_int_increasing) simp_all
    with \<open>(2::rat) powi (e + 52) < 2 powi 50\<close> show False by linarith
  qed
  then have e3: "e \<le> - 3" by simp
  have N5: "5 * N \<le> 4 * n" "4 * n \<le> 5 * N + 4"
    unfolding N_def by presburger+
  have "(of_int (5 * N) :: rat) \<le> of_int (4 * n)" "(of_int (4 * n) :: rat) \<le> of_int (5 * N + 4)"
    using N5 by (simp_all only: of_int_le_iff)
  then have rN: "5 * (of_int N :: rat) \<le> 4 * of_int n" "4 * (of_int n :: rat) \<le> 5 * of_int N + 4"
    by simp_all
  have Ny: "of_int N \<le> y" using rN(1) n1 by (simp add: y_def)
  have Ehalf: "(2::rat) powi e \<le> 1 / 8"
  proof -
    have "(2::rat) powi e \<le> 2 powi (- 3)" using e3 by (intro power_int_increasing) simp_all
    then show ?thesis by (simp add: power_int_minus)
  qed
  have lower: "of_int N \<le> toDouble y"
  proof -
    have inv: "1 / (2::rat) powi e = of_int (2 ^ nat (- e))"
      using e3 by (simp add: power_int_def field_simps)
    have "of_int N / (2::rat) powi e = of_int N * (1 / 2 powi e)"
      by simp
    also have "\<dots> = of_int (N * 2 ^ nat (- e))"
      unfolding inv by simp
    finally have "of_int N / (2::rat) powi e = of_int (N * 2 ^ nat (- e))" .
    moreover have "of_int N / (2::rat) powi e \<le> y / 2 powi e"
      using Ny E by (simp add: divide_right_mono)
    ultimately have "N * 2 ^ nat (- e) \<le> \<lfloor>y / 2 powi e\<rfloor>"
      by (simp add: le_floor_iff)
    then have "N * 2 ^ nat (- e) \<le> roundHalfEven (y / 2 powi e)"
      using roundHalfEven_bounds[of "y / 2 powi e"] by simp
    then have "(of_int (N * 2 ^ nat (- e)) :: rat) \<le> of_int (roundHalfEven (y / 2 powi e))"
      by (simp only: of_int_le_iff)
    then have "of_int (N * 2 ^ nat (- e)) * (2::rat) powi e \<le> toDouble y"
      unfolding td using E by (intro mult_right_mono) simp_all
    moreover have "of_int (N * 2 ^ nat (- e)) * (2::rat) powi e = of_int N"
    proof -
      have "of_int (2 ^ nat (- e)) * (2::rat) powi e = 1"
        unfolding inv[symmetric] by simp
      then have "of_int N * (of_int (2 ^ nat (- e)) * (2::rat) powi e) = of_int N"
        by (simp only: mult_1_right)
      then show ?thesis by (simp only: of_int_mult mult.assoc)
    qed
    ultimately show ?thesis by (simp only:)
  qed
  have upper: "toDouble y < of_int N + 1"
  proof -
    have "y = 4 * of_int n / 5 + of_int n / (5 * 2 ^ 52)"
      by (simp add: y_def field_simps)
    then have "y < of_int N + 4 / 5 + 1 / 20"
      using rN(2) n50 by simp
    then show ?thesis using e(2) Ehalf by simp
  qed
  show ?thesis
    unfolding f N_def[symmetric] using lower upper by (intro floor_unique) simp_all
qed


section \<open>Properties of the key wheel\<close>

lemmas key_defs =
  analyzeKeyCompatibility_def keyToCamelot_def camelotMap_def toLowerCase_def
  toLowerCase_char_def compareCamelot_def parseInt_def substring_def substring_from_def
  digit_of_def

text \<open>
  C4. Keys at the same wheel position with opposite modes (a relative major/minor pair)
  are to be \<open>Compatible\<close>. A minor and C major both sit at position 8 (\<open>08A\<close>, \<open>08B\<close>),
  yet the function answers \<open>moderate\<close>: it compares the target's hour with the source's
  hour shifted by three, not with the source's hour.
\<close>

theorem relative_pair_is_moderate:
  "keyToCamelot (Some ''A'') (Some ''minor'') = Inr (Some ''08A'')
   \<and> keyToCamelot (Some ''C'') (Some ''major'') = Inr (Some ''08B'')
   \<and> analyzeKeyCompatibility (Some ''A'') (Some ''minor'') (Some ''C'') (Some ''major'')
       = Inr ''moderate''"
  by (simp add: key_defs)

text \<open>
  C5. \<open>analyzeKeyCompatibility\<close> is to return one of its five ratings for every pair of
  keys and never throw. From E minor (\<open>09A\<close>) to C major (\<open>08B\<close>) the relative hour is
  \<open>(9 + 3) % 12 = 0\<close>, the function assigns to its \<open>const\<close> and throws a TypeError.
\<close>

theorem analyzeKeyCompatibility_throws:
  "analyzeKeyCompatibility (Some ''E'') (Some ''minor'') (Some ''C'') (Some ''major'')
     = Inl TypeError"
  by (simp add: key_defs)


section \<open>Properties of the transition planner\<close>

lemma generateTransitionPoints_length:
  "generateTransitionPoints tracks = Inr trs \<Longrightarrow> length trs = length tracks - 1"
  by (induction tracks arbitrary: trs rule: generateTransitionPoints.induct)
     (auto split: sum.splits)

lemma generateTransitionPoints_nth:
  "generateTransitionPoints tracks = Inr trs \<Longrightarrow> i < length trs \<Longrightarrow>
     transitionBetween (tracks ! i) (tracks ! Suc i) = Inr (trs ! i)"
proof (induction tracks arbitrary: trs i rule: generateTransitionPoints.induct)
  case (1 currentTrack nextTrack rest)
  then obtain t ts where t: "transitionBetween currentTrack nextTrack = Inr t"
    and ts: "generateTransitionPoints (nextTrack # rest) = Inr ts" and trs: "trs = t # ts"
    by (auto split: sum.splits)
  show ?case
  proof (cases i)
    case 0
    then show ?thesis using t trs by simp
  next
    case (Suc j)
    then have "j < length ts" using "1.prems"(2) trs by simp
    from "1.IH"[OF t ts this] show ?thesis using Suc trs by simp
  qed
qed simp_all

lemma transitionBetween_fallback:
  assumes "t_advancedAnalysis a = None \<or> t_advancedAnalysis b = None"
  shows "transitionBetween a b =
           Inr \<lparr> fromTrack = t_id a, toTrack = t_id b,
                 transitionPoint = Some (floor_80_percent (dbl_or (t_duration a) 180000)),
                 bpmDifference = Some (num_or (t_bpm b) 120 - num_or (t_bpm a) 120),
                 sourceKey = None, targetKey = None, keyCompatibility = None,
                 transitionType =
                   (if \<bar>num_or (t_bpm b) 120 - num_or (t_bpm a) 120\<bar> < 5 then ''beatmatch''
                    else if \<bar>num_or (t_bpm b) 120 - num_or (t_bpm a) 120\<bar> > 15 then ''long_fade''
                    else ''fade''),
                 transitionDuration = spec_durationMs (num_or (t_bpm b) 120 - num_or (t_bpm a) 120),
                 sourceBpm = None, targetBpm = None \<rparr>"
  using assms
  by (auto simp: transitionBetween_def fallbackTransition_def spec_durationMs_def num_or_def Let_def
           split: option.splits)

lemma transitionBetween_ignores_duration:
  assumes "t_advancedAnalysis a \<noteq> None" and "t_advancedAnalysis b \<noteq> None"
  shows "transitionBetween (a\<lparr> t_duration := x \<rparr>) b = transitionBetween a b"
  using assms by (auto simp: transitionBetween_def split: sum.splits)

lemma short_analysed_pair_run:
  "generateTransitionPoints
     [analysedTrack 1 128 31600 ''C'' ''major'', analysedTrack 2 129 200000 ''C'' ''major'']
   = Inr [\<lparr> fromTrack = 1, toTrack = 2, transitionPoint = Some 24000, bpmDifference = Some 1,
            sourceKey = Some ''C'', targetKey = Some ''C'', keyCompatibility = Some ''perfect'',
            transitionType = ''beatmatch_blend'', transitionDuration = 8000,
            sourceBpm = None, targetBpm = None \<rparr>]"
  by code_simp

lemma plain_pair_run:
  "generateTransitionPoints [plainTrack 1 120 240000, plainTrack 2 160 200000]
   = Inr [\<lparr> fromTrack = 1, toTrack = 2, transitionPoint = Some 192000, bpmDifference = Some 40,
            sourceKey = None, targetKey = None, keyCompatibility = None,
            transitionType = ''long_fade'', transitionDuration = 12000,
            sourceBpm = None, targetBpm = None \<rparr>]"
  by code_simp

lemma short_plain_pair_run:
  "generateTransitionPoints [plainTrack 1 120 10000, plainTrack 2 120 240000]
   = Inr [\<lparr> fromTrack = 1, toTrack = 2, transitionPoint = Some 8000, bpmDifference = Some 0,
            sourceKey = None, targetKey = None, keyCompatibility = None,
            transitionType = ''beatmatch'', transitionDuration = 6000,
            sourceBpm = None, targetBpm = None \<rparr>]"
  by code_simp

lemma findBestTransition_no_duration:
  "findBestTransition ca na = Inr info \<Longrightarrow> ti_duration info = None"
  by (auto simp: findBestTransition_def Let_def split: option.splits sum.splits)

lemma transitionBetween_analysed:
  assumes "t_advancedAnalysis a \<noteq> None" and "t_advancedAnalysis b \<noteq> None"
    and "transitionBetween a b = Inr tr"
  shows "transitionDuration tr = 8000"
proof -
  from assms(1,2) obtain ca na where ca: "t_advancedAnalysis a = Some ca"
    and na: "t_advancedAnalysis b = Some na" by auto
  with assms(3) obtain info where info: "findBestTransition ca na = Inr info"
    and tr: "transitionDuration tr = num_or (ti_duration info) 8000"
    by (auto simp: transitionBetween_def split: sum.splits)
  from findBestTransition_no_duration[OF info] tr show ?thesis
    by (simp add: num_or_def)
qed


text \<open>
  C1, as the code has it. No clamp is applied at plan time. For a pair that does not
  carry an advanced analysis on both sides the transition point is \<open>Math.floor(d * 0.8)\<close>,
  in doubles, where \<open>d\<close> is the outgoing track's length, or 180000 when that is absent
  or 0, and the duration is 6000, 8000 or 12000; point plus duration stays within the
  track's length when that is one minute or more, and for a whole number of
  milliseconds below \<open>2^50\<close> exactly when the duration is at most \<open>\<lceil>d / 5\<rceil>\<close>. For a pair
  analysed on both sides the transition does not depend on the outgoing track's length
  at all.
\<close>

theorem planned_transition_fit:
  assumes "generateTransitionPoints tracks = Inr trs" and "i < length trs"
  shows "(\<not> bothAnalysed tracks i \<longrightarrow>
            transitionPoint (trs ! i)
              = Some (floor_80_percent (dbl_or (t_duration (tracks ! i)) 180000))
          \<and> transitionDuration (trs ! i) \<in> {6000, 8000, 12000}
          \<and> (\<forall>d. t_duration (tracks ! i) = Some d \<and> 60000 \<le> d \<longrightarrow> fitsSource (trs ! i) d)
          \<and> (\<forall>n. t_duration (tracks ! i) = Some (of_int n) \<and> 0 < n \<and> n < 2 ^ 50 \<longrightarrow>
                 (fitsSource (trs ! i) (of_int n)
                  \<longleftrightarrow> transitionDuration (trs ! i) \<le> (n + 4) div 5)))
       \<and> (bothAnalysed tracks i \<longrightarrow>
            (\<forall>x. transitionBetween ((tracks ! i)\<lparr> t_duration := x \<rparr>) (tracks ! Suc i)
                   = Inr (trs ! i)))"
proof (intro conjI impI)
  let ?a = "tracks ! i" and ?b = "tracks ! Suc i"
  have tr: "transitionBetween ?a ?b = Inr (trs ! i)"
    by (rule generateTransitionPoints_nth[OF assms(1,2)])
  {
    assume "bothAnalysed tracks i"
    then show "\<forall>x. transitionBetween (?a\<lparr> t_duration := x \<rparr>) ?b = Inr (trs ! i)"
      using transitionBetween_ignores_duration[of ?a ?b] tr by (simp add: bothAnalysed_def)
  }
  assume "\<not> bothAnalysed tracks i"
  then have none: "t_advancedAnalysis ?a = None \<or> t_advancedAnalysis ?b = None"
    by (auto simp: bothAnalysed_def)
  note eq = tr[unfolded transitionBetween_fallback[OF none], simplified, symmetric]
  show p: "transitionPoint (trs ! i) = Some (floor_80_percent (dbl_or (t_duration ?a) 180000))"
    by (subst eq) simp
  show dur: "transitionDuration (trs ! i) \<in> {6000, 8000, 12000}"
    by (subst eq) (simp add: spec_durationMs_def)
  show "\<forall>d. t_duration ?a = Some d \<and> 60000 \<le> d \<longrightarrow> fitsSource (trs ! i) d"
  proof (intro allI impI)
    fix d :: rat
    assume d: "t_duration ?a = Some d \<and> 60000 \<le> d"
    then have "dbl_or (t_duration ?a) 180000 = d"
      by (auto simp: dbl_or_def)
    moreover from d floor_80_percent_fits[of d]
    have "of_int (floor_80_percent d) + 12000 \<le> d" by simp
    moreover have "(of_int (transitionDuration (trs ! i)) :: rat) \<le> 12000"
      using dur by auto
    ultimately show "fitsSource (trs ! i) d"
      unfolding fitsSource_def p by simp
  qed
  show "\<forall>n. t_duration ?a = Some (of_int n) \<and> 0 < n \<and> n < 2 ^ 50 \<longrightarrow>
          (fitsSource (trs ! i) (of_int n) \<longleftrightarrow> transitionDuration (trs ! i) \<le> (n + 4) div 5)"
  proof (intro allI impI)
    fix n :: int
    assume n: "t_duration ?a = Some (of_int n) \<and> 0 < n \<and> n < 2 ^ 50"
    then have "dbl_or (t_duration ?a) 180000 = of_int n"
      by (auto simp: dbl_or_def)
    then have f: "floor_80_percent (dbl_or (t_duration ?a) 180000) = (4 * n) div 5"
      using n floor_80_percent_int[of n] by simp
    have "fitsSource (trs ! i) (of_int n) \<longleftrightarrow> (4 * n) div 5 + transitionDuration (trs ! i) \<le> n"
      unfolding fitsSource_def p f by (simp only: option.case of_int_le_iff)
    also have "\<dots> \<longleftrightarrow> transitionDuration (trs ! i) \<le> (n + 4) div 5"
      by presburger
    finally show "fitsSource (trs ! i) (of_int n)
                    \<longleftrightarrow> transitionDuration (trs ! i) \<le> (n + 4) div 5" .
  qed
qed

theorem planned_transition_fit_witness:
  "fitsSource
     \<lparr> fromTrack = 1, toTrack = 2, transitionPoint = Some 192000, bpmDifference = Some 40,
       sourceKey = None, targetKey = None, keyCompatibility = None,
       transitionType = ''long_fade'', transitionDuration = 12000,
       sourceBpm = None, targetBpm = None \<rparr> 240000
   \<and> transitionBetween
        ((analysedTrack 1 128 31600 ''C'' ''major'')\<lparr> t_duration := Some 60000 \<rparr>)
        (analysedTrack 2 129 200000 ''C'' ''major'')
      = Inr \<lparr> fromTrack = 1, toTrack = 2, transitionPoint = Some 24000, bpmDifference = Some 1,
              sourceKey = Some ''C'', targetKey = Some ''C'', keyCompatibility = Some ''perfect'',
              transitionType = ''beatmatch_blend'', transitionDuration = 8000,
              sourceBpm = None, targetBpm = None \<rparr>
   \<and> \<not> fitsSource
          \<lparr> fromTrack = 1, toTrack = 2, transitionPoint = Some 8000, bpmDifference = Some 0,
            sourceKey = None, targetKey = None, keyCompatibility = None,
            transitionType = ''beatmatch'', transitionDuration = 6000,
            sourceBpm = None, targetBpm = None \<rparr>
          10000"
proof -
  let ?plain = "[plainTrack 1 120 240000, plainTrack 2 160 200000]"
  let ?short = "[plainTrack 1 120 10000, plainTrack 2 120 240000]"
  let ?analysed = "[analysedTrack 1 128 31600 ''C'' ''major'', analysedTrack 2 129 200000 ''C'' ''major'']"
  have d: "t_duration (?plain ! 0) = Some 240000"
    and d': "t_duration (?short ! 0) = Some (of_int 10000)"
    by (simp_all add: plainTrack_def)
  have p: "\<not> bothAnalysed ?plain 0" and p': "\<not> bothAnalysed ?short 0"
    by (simp_all add: bothAnalysed_def plainTrack_def)
  have a: "bothAnalysed ?analysed 0"
    by (simp add: bothAnalysed_def analysedTrack_def)
  from planned_transition_fit[OF plain_pair_run, of 0] p
  have "\<forall>d. t_duration (?plain ! 0) = Some d \<and> 60000 \<le> d \<longrightarrow>
          fitsSource ([\<lparr> fromTrack = 1, toTrack = 2, transitionPoint = Some 192000,
                          bpmDifference = Some 40, sourceKey = None, targetKey = None,
                          keyCompatibility = None, transitionType = ''long_fade'',
                          transitionDuration = 12000, sourceBpm = None, targetBpm = None \<rparr>] ! 0) d"
    by simp
  from this[rule_format, of 240000] d
  have one: "fitsSource
     \<lparr> fromTrack = 1, toTrack = 2, transitionPoint = Some 192000, bpmDifference = Some 40,
       sourceKey = None, targetKey = None, keyCompatibility = None,
       transitionType = ''long_fade'', transitionDuration = 12000,
       sourceBpm = None, targetBpm = None \<rparr> 240000"
    by simp
  from planned_transition_fit[OF short_plain_pair_run, of 0] p'
  have "\<forall>n. t_duration (?short ! 0) = Some (of_int n) \<and> 0 < n \<and> n < 2 ^ 50 \<longrightarrow>
          (fitsSource ([\<lparr> fromTrack = 1, toTrack = 2, transitionPoint = Some 8000,
                           bpmDifference = Some 0, sourceKey = None, targetKey = None,
                           keyCompatibility = None, transitionType = ''beatmatch'',
                           transitionDuration = 6000, sourceBpm = None, targetBpm = None \<rparr>] ! 0)
             (of_int n)
           \<longleftrightarrow> transitionDuration
                 ([\<lparr> fromTrack = 1, toTrack = 2, transitionPoint = Some 8000,
                     bpmDifference = Some 0, sourceKey = None, targetKey = None,
                     keyCompatibility = None, transitionType = ''beatmatch'',
                     transitionDuration = 6000, sourceBpm = None, targetBpm = None \<rparr>] ! 0)
               \<le> (n + 4) div 5)"
    by simp
  from this[rule_format, of 10000] d'
  have two: "\<not> fitsSource
          \<lparr> fromTrack = 1, toTrack = 2, transitionPoint = Some 8000, bpmDifference = Some 0,
            sourceKey = None, targetKey = None, keyCompatibility = None,
            transitionType = ''beatmatch'', transitionDuration = 6000,
            sourceBpm = None, targetBpm = None \<rparr>
          10000"
    by simp
  from planned_transition_fit[OF short_analysed_pair_run, of 0] a
  have three: "transitionBetween
        ((analysedTrack 1 128 31600 ''C'' ''major'')\<lparr> t_duration := Some 60000 \<rparr>)
        (analysedTrack 2 129 200000 ''C'' ''major'')
      = Inr \<lparr> fromTrack = 1, toTrack = 2, transitionPoint = Some 24000, bpmDifference = Some 1,
              sourceKey = Some ''C'', targetKey = Some ''C'', keyCompatibility = Some ''perfect'',
              transitionType = ''beatmatch_blend'', transitionDuration = 8000,
              sourceBpm = None, targetBpm = None \<rparr>"
    by simp
  from one two three show ?thesis by (intro conjI)
qed

text \<open>
  C1 as stated fails, with and without analysis: a 10 s track followed by one of the same
  tempo gets the transition point 8000 and the duration 6000, which end 4 s after the
  track does; an analysed track of 31.6 s gets the point 24000 (its beat 48) and the
  duration 8000, which end 0.4 s after it.
\<close>

theorem short_track_overruns:
  "generateTransitionPoints [plainTrack 1 120 10000, plainTrack 2 120 240000]
     = Inr [\<lparr> fromTrack = 1, toTrack = 2, transitionPoint = Some 8000, bpmDifference = Some 0,
              sourceKey = None, targetKey = None, keyCompatibility = None,
              transitionType = ''beatmatch'', transitionDuration = 6000,
              sourceBpm = None, targetBpm = None \<rparr>]
   \<and> \<not> fitsSource
          \<lparr> fromTrack = 1, toTrack = 2, transitionPoint = Some 8000, bpmDifference = Some 0,
            sourceKey = None, targetKey = None, keyCompatibility = None,
            transitionType = ''beatmatch'', transitionDuration = 6000,
            sourceBpm = None, targetBpm = None \<rparr>
          10000
   \<and> generateTransitionPoints
       [analysedTrack 1 128 31600 ''C'' ''major'', analysedTrack 2 129 200000 ''C'' ''major'']
     = Inr [\<lparr> fromTrack = 1, toTrack = 2, transitionPoint = Some 24000, bpmDifference = Some 1,
              sourceKey = Some ''C'', targetKey = Some ''C'', keyCompatibility = Some ''perfect'',
              transitionType = ''beatmatch_blend'', transitionDuration = 8000,
              sourceBpm = None, targetBpm = None \<rparr>]
   \<and> \<not> fitsSource
          \<lparr> fromTrack = 1, toTrack = 2, transitionPoint = Some 24000, bpmDifference = Some 1,
            sourceKey = Some ''C'', targetKey = Some ''C'', keyCompatibility = Some ''perfect'',
            transitionType = ''beatmatch_blend'', transitionDuration = 8000,
            sourceBpm = None, targetBpm = None \<rparr>
          31600"
  by (intro conjI short_plain_pair_run short_analysed_pair_run) (simp_all add: fitsSource_def)

text \<open>
  C3. The duration is to follow the tempo rule (6000 below a difference of 5, 12000
  above 15, else 8000) for every pair, as the comment of \<open>generateTransitionPoints\<close>
  announces ("Calculates appropriate transition durations based on BPM difference").
  The code applies the rule, on the tempi defaulted to 120, in its fallback branch only:
  for a pair analysed on both sides \<open>findBestTransition\<close> sets no \<open>duration\<close> and
  \<open>transitionInfo.duration || 8000\<close> gives 8000 whatever the tempo difference.
\<close>

theorem transition_duration_rule:
  assumes "generateTransitionPoints tracks = Inr trs" and "i < length trs"
  shows "transitionDuration (trs ! i) =
           (if bothAnalysed tracks i then 8000
            else spec_durationMs (num_or (t_bpm (tracks ! Suc i)) 120 - num_or (t_bpm (tracks ! i)) 120))"
proof (cases "bothAnalysed tracks i")
  case True
  then show ?thesis
    using transitionBetween_analysed[OF _ _ generateTransitionPoints_nth[OF assms]]
    by (simp add: bothAnalysed_def)
next
  case False
  then have "t_advancedAnalysis (tracks ! i) = None \<or> t_advancedAnalysis (tracks ! Suc i) = None"
    by (auto simp: bothAnalysed_def)
  from generateTransitionPoints_nth[OF assms, unfolded transitionBetween_fallback[OF this]]
  have "transitionDuration (trs ! i) =
          spec_durationMs (num_or (t_bpm (tracks ! Suc i)) 120 - num_or (t_bpm (tracks ! i)) 120)"
    by (metis sum.inject(2) transition.select_convs(9))
  with False show ?thesis by simp
qed

lemma analysed_pair_run:
  "generateTransitionPoints
     [analysedTrack 1 128 240000 ''C'' ''major'', analysedTrack 2 129 200000 ''C'' ''major'']
   = Inr [\<lparr> fromTrack = 1, toTrack = 2, transitionPoint = Some 24000, bpmDifference = Some 1,
            sourceKey = Some ''C'', targetKey = Some ''C'', keyCompatibility = Some ''perfect'',
            transitionType = ''beatmatch_blend'', transitionDuration = 8000,
       sourceBpm = None, targetBpm = None \<rparr>]"
  by code_simp

theorem transition_duration_rule_witness:
  "transitionDuration
     \<lparr> fromTrack = 1, toTrack = 2, transitionPoint = Some 24000, bpmDifference = Some 1,
       sourceKey = Some ''C'', targetKey = Some ''C'', keyCompatibility = Some ''perfect'',
       transitionType = ''beatmatch_blend'', transitionDuration = 8000,
       sourceBpm = None, targetBpm = None \<rparr> = 8000
   \<and> bothAnalysed
       [analysedTrack 1 128 240000 ''C'' ''major'', analysedTrack 2 129 200000 ''C'' ''major''] 0"
  using transition_duration_rule[OF analysed_pair_run, of 0]
  by (simp add: bothAnalysed_def analysedTrack_def)

text \<open>
  The failing input of C3: two analysed tracks in the same key at 128 and 129 BPM get
  the duration 8000, where the rule gives 6000 for a difference of 1.
\<close>

theorem analysed_pair_gets_default_duration:
  "generateTransitionPoints
     [analysedTrack 1 128 240000 ''C'' ''major'', analysedTrack 2 129 200000 ''C'' ''major'']
   = Inr [\<lparr> fromTrack = 1, toTrack = 2, transitionPoint = Some 24000, bpmDifference = Some 1,
            sourceKey = Some ''C'', targetKey = Some ''C'', keyCompatibility = Some ''perfect'',
            transitionType = ''beatmatch_blend'', transitionDuration = 8000,
       sourceBpm = None, targetBpm = None \<rparr>]
   \<and> spec_durationMs 1 = 6000"
  by (rule conjI, rule analysed_pair_run) (simp add: spec_durationMs_def)



section \<open>Properties of the mix order planner\<close>

lemma energyCurveLoop_returns:
  "int (length result) = int upIndex - downIndex - 1 \<Longrightarrow> upIndex \<le> length sortedByEnergy \<Longrightarrow>
   -1 \<le> downIndex \<Longrightarrow> length sortedByEnergy = n \<Longrightarrow>
   \<exists>r. energyCurveLoop sortedByEnergy n result upIndex downIndex goingUp = Some r"
proof (induction sortedByEnergy n result upIndex downIndex goingUp rule: energyCurveLoop.induct)
  case (1 sortedByEnergy n result upIndex downIndex goingUp)
  show ?case
  proof (cases "length result < n")
    case False
    then show ?thesis by (subst energyCurveLoop.simps) simp
  next
    case more: True
    consider (up) "goingUp \<and> upIndex < length sortedByEnergy"
      | (down) "\<not> (goingUp \<and> upIndex < length sortedByEnergy)" "0 \<le> downIndex"
      | (up') "\<not> goingUp" "\<not> 0 \<le> downIndex" "upIndex < length sortedByEnergy"
      using more "1.prems" by linarith
    then show ?thesis
    proof cases
      case up
      have "\<exists>r. energyCurveLoop sortedByEnergy n (result @ [sortedByEnergy ! upIndex])
                  (upIndex + 1) downIndex (goingUp \<and> \<not> exceeds70 (length result + 1) n) = Some r"
        using "1.prems" up by (intro "1.IH"(1)[OF more up]) auto
      then show ?thesis using more up by (subst energyCurveLoop.simps) auto
    next
      case down
      have "\<exists>r. energyCurveLoop sortedByEnergy n (result @ [sortedByEnergy ! nat downIndex])
                  upIndex (downIndex - 1) (goingUp \<and> \<not> exceeds70 (length result + 1) n) = Some r"
        using "1.prems" down by (intro "1.IH"(2)[OF more down]) auto
      then show ?thesis using more down by (subst energyCurveLoop.simps) auto
    next
      case up'
      have "\<exists>r. energyCurveLoop sortedByEnergy n (result @ [sortedByEnergy ! upIndex])
                  (upIndex + 1) downIndex (goingUp \<and> \<not> exceeds70 (length result + 1) n) = Some r"
        using "1.prems" up' by (intro "1.IH"(3)[OF more _ up'(2,3)]) auto
      then show ?thesis using more up' by (subst energyCurveLoop.simps) auto
    qed
  qed
qed

lemma createEnergyCurve_returns:
  "tracks \<noteq> [] \<Longrightarrow> \<exists>r. createEnergyCurve view tracks = Some r"
  unfolding createEnergyCurve_def Let_def
  by (simp, intro energyCurveLoop_returns) (auto simp: Suc_le_eq)

lemma pickBest_fold_inv:
  "(\<forall>t. snd acc = Some t \<longrightarrow> t \<in> A \<and> m_id (view t) \<notin> usedTracks) \<Longrightarrow> set tracks \<subseteq> A \<Longrightarrow>
   snd (fold (\<lambda>track (bestScore, bestTrack).
                  if m_id (view track) \<notin> usedTracks
                     \<and> scores (m_id (view track)) ! position > bestScore
                  then (scores (m_id (view track)) ! position, Some track)
                  else (bestScore, bestTrack))
               tracks acc) = Some t \<Longrightarrow> t \<in> A \<and> m_id (view t) \<notin> usedTracks"
proof (induction tracks arbitrary: acc)
  case Nil
  then show ?case by simp
next
  case (Cons a tracks)
  obtain bs bt where acc: "acc = (bs, bt)" by (cases acc)
  show ?case
    using Cons.prems acc
    by (intro Cons.IH[of "if m_id (view a) \<notin> usedTracks \<and> scores (m_id (view a)) ! position > bs
                          then (scores (m_id (view a)) ! position, Some a) else (bs, bt)"])
       (auto split: if_splits)
qed

lemma pickBest_Some:
  "pickBest view tracks usedTracks scores position = Some t
     \<Longrightarrow> t \<in> set tracks \<and> m_id (view t) \<notin> usedTracks"
  unfolding pickBest_def
  by (rule pickBest_fold_inv[where acc = "(-1, None)" and A = "set tracks"]) auto

lemma placeAt_placed:
  "placed view tracks state \<Longrightarrow> placed view tracks (placeAt view tracks scores position state)"
  by (auto simp: placed_def placeAt_def split: option.splits dest: pickBest_Some)

lemma fold_placeAt_placed:
  "placed view tracks state \<Longrightarrow> placed view tracks (fold (placeAt view tracks scores) positions state)"
  by (induction positions arbitrary: state) (simp_all add: placeAt_placed)

lemma placed_rest_mset:
  assumes "distinct (map (\<lambda>t. m_id (view t)) tracks)" and "placed view tracks (result, usedTracks)"
  shows "mset (result @ filter (\<lambda>track. m_id (view track) \<notin> usedTracks) tracks) = mset tracks"
proof -
  have inj: "inj_on (\<lambda>t. m_id (view t)) (set tracks)" and dt: "distinct tracks"
    using assms(1) by (auto simp: distinct_map)
  have used: "usedTracks = (\<lambda>t. m_id (view t)) ` set result" and sub: "set result \<subseteq> set tracks"
    and dr: "distinct result"
    using assms(2) by (auto simp: placed_def distinct_map)
  have "distinct (result @ filter (\<lambda>track. m_id (view track) \<notin> usedTracks) tracks)"
    using dt dr used by auto
  moreover have "set (result @ filter (\<lambda>track. m_id (view track) \<notin> usedTracks) tracks) = set tracks"
    using sub used inj by (auto dest: inj_onD)
  ultimately show ?thesis
    using dt by (simp only: set_eq_iff_mset_eq_distinct[symmetric])
qed

lemma placeAll_mset:
  assumes "distinct (map (\<lambda>t. m_id (view t)) tracks)"
  shows "mset (placeAll view tracks scores) = mset tracks"
proof -
  obtain result usedTracks where
    f: "fold (placeAt view tracks scores) [0 ..< length tracks] ([], {}) = (result, usedTracks)"
    by (cases "fold (placeAt view tracks scores) [0 ..< length tracks] ([], {})")
  have "placed view tracks ([], {})" by (simp add: placed_def)
  then have "placed view tracks (result, usedTracks)"
    using fold_placeAt_placed[of view tracks "([], {})" scores "[0 ..< length tracks]"] f by simp
  from placed_rest_mset[OF assms this] show ?thesis
    by (simp add: placeAll_def f)
qed

lemma m_id_annotate: "m_id (annotate t) = t_id t"
  by (simp add: m_id_def annotate_def)

lemma t_id_toObject: "t_id (toObject t) = m_id t"
  by (simp add: m_id_def toObject_def)

text \<open>
  C2. For tracks with pairwise distinct ids, \<open>calculateMixOrder\<close> returns, and what it
  returns holds exactly the input's ids, each once: both for fewer than three tracks
  (the sort by tempo) and for three or more (the weighted vote over the energy, tempo
  and harmonic orderings).
\<close>

theorem calculateMixOrder_permutation:
  assumes "distinct (map t_id analyzedTracks)"
  shows "\<exists>order. calculateMixOrder analyzedTracks = Some order
           \<and> mset (map t_id order) = mset (map t_id analyzedTracks)
           \<and> distinct (map t_id order)"
proof (cases "length analyzedTracks < 3")
  case True
  then have "calculateMixOrder analyzedTracks
               = Some (sort_key (\<lambda>t. num_or (t_bpm t) 120) analyzedTracks)"
    by (simp add: calculateMixOrder_def)
  moreover have "mset (map t_id (sort_key (\<lambda>t. num_or (t_bpm t) 120) analyzedTracks))
                   = mset (map t_id analyzedTracks)"
    by simp
  ultimately show ?thesis
    using assms by (metis mset_eq_imp_distinct_iff)
next
  case False
  define tracks where "tracks = map annotate analyzedTracks"
  have ids: "map m_id tracks = map t_id analyzedTracks"
    by (simp add: tracks_def m_id_annotate)
  have "tracks \<noteq> []" using False by (auto simp: tracks_def)
  then obtain energyOrdered where e: "createEnergyCurve id tracks = Some energyOrdered"
    using createEnergyCurve_returns by blast
  define scores where "scores = scoreRow id (length tracks) energyOrdered (minimizeBpmJumps id tracks)
      (if \<exists>t \<in> set analyzedTracks. t_advancedAnalysis t \<noteq> None then harmonicMixing id tracks
       else tracks)
      (\<exists>t \<in> set analyzedTracks. t_advancedAnalysis t \<noteq> None)"
  define order where "order = map toObject (placeAll id tracks scores)"
  have run: "calculateMixOrder analyzedTracks = Some order"
    using False e[unfolded tracks_def]
    by (simp add: calculateMixOrder_def Let_def order_def scores_def tracks_def)
  have "distinct (map (\<lambda>t. m_id (id t)) tracks)"
    using assms ids by simp
  then have "mset (placeAll id tracks scores) = mset tracks"
    by (rule placeAll_mset)
  then have "mset (map m_id (placeAll id tracks scores)) = mset (map m_id tracks)"
    by (metis mset_map)
  then have m: "mset (map t_id order) = mset (map t_id analyzedTracks)"
    by (simp add: order_def ids[symmetric] t_id_toObject comp_def)
  then have "distinct (map t_id order)"
    using assms by (metis mset_eq_imp_distinct_iff)
  with run m show ?thesis by blast
qed

theorem calculateMixOrder_permutation_witness:
  "distinct (map t_id [plainTrack 1 120 200000, plainTrack 2 122 200000, plainTrack 3 180 200000])
   \<and> map_option (map t_id)
        (calculateMixOrder [plainTrack 1 120 200000, plainTrack 2 122 200000, plainTrack 3 180 200000])
       = Some [1, 2, 3]
   \<and> mset [1, 2, 3]
       = mset (map t_id [plainTrack 1 120 200000, plainTrack 2 122 200000, plainTrack 3 180 200000])"
proof -
  let ?tracks = "[plainTrack 1 120 200000, plainTrack 2 122 200000, plainTrack 3 180 200000]"
  have d: "distinct (map t_id ?tracks)"
    by (simp add: plainTrack_def)
  have run: "map_option (map t_id) (calculateMixOrder ?tracks) = Some [1, 2, 3]"
    by code_simp
  from calculateMixOrder_permutation[OF d] obtain order
    where "calculateMixOrder ?tracks = Some order"
      and "mset (map t_id order) = mset (map t_id ?tracks)"
    by blast
  with run have "mset [1, 2, 3] = mset (map t_id ?tracks)"
    by auto
  with d run show ?thesis by blast
qed


section \<open>Properties of the player\<close>

lemmas setter_defs =
  setGain_def setLowEQ_def setMidEQ_def setHighEQ_def setElement_def setTempoAdjustment_def
  scheduleGain_def scheduleLowEQ_def scheduleMidEQ_def scheduleHighEQ_def

lemmas example_defs =
  exampleMixer_def initialize_def stop_def AudioMixer_def newChain_def fadeTransition_def
  plainTrack_def

lemmas skip_defs =
  duringTransition_def afterSkip_def afterStaleCallback_def


lemmas run_defs =
  play_def onTimeUpdate_def startAdvancedTransition_def performVolumeTransition_def
  linearCrossfade_def andThen_def hasChain_def setter_defs num_or_def abs_gt_def str_or_def
  prepareBeatsyncTransition_def prepareHarmonicTransition_def nextTrack_def resetTrackEffects_def
  adjustTempo_def fire_def runCallback_def

lemma next_index:
  "2 \<le> n \<Longrightarrow> cur < n \<Longrightarrow> (cur + 1) mod n \<noteq> cur \<and> (cur + 1) mod n < (n::nat)"
  by (cases "cur + 1 = n") auto

text \<open>A player is well formed once a mix with a track is loaded.\<close>

lemma initialize_wellFormed:
  "mixTracks \<noteq> [] \<Longrightarrow> wellFormed (initialize mixTracks mixTransitions m)"
  by (simp add: wellFormed_def initialize_def stop_def)

text \<open>What one call of \<open>nextTrack\<close> does to a well-formed player with two tracks or more.\<close>

lemma nextTrack_result:
  assumes "2 \<le> length (mx_tracks m)" and "wellFormed m"
  defines "cur \<equiv> currentTrackIndex m"
    and "nxt \<equiv> (currentTrackIndex m + 1) mod length (mx_tracks m)"
  shows "\<exists>m'. nextTrack m = Inr m'
           \<and> currentTrackIndex m' = nxt
           \<and> length (chains m') = length (chains m)
           \<and> neutral (chains m' ! cur)
           \<and> paused (element (chains m' ! cur))
           \<and> p_value (gain (chains m' ! nxt)) = 1
           \<and> currentTime (element (chains m' ! nxt)) = 0
           \<and> (isPlaying m \<longrightarrow> \<not> paused (element (chains m' ! nxt)))
           \<and> (\<forall>k. k \<noteq> cur \<longrightarrow> k \<noteq> nxt \<longrightarrow> chains m' ! k = chains m ! k)
           \<and> (\<forall>k. scheduled (chains m' ! k) = scheduled (chains m ! k))
           \<and> timers m' = timers m
           \<and> isCrossfading m' = isCrossfading m
           \<and> isPlaying m' = isPlaying m
           \<and> mx_tracks m' = mx_tracks m"
proof -
  let ?n = "length (mx_tracks m)"
  have n: "length (chains m) = ?n" and c: "cur < ?n"
    using assms(2) by (auto simp: wellFormed_def cur_def)
  have x: "nxt \<noteq> cur" "nxt < ?n"
    using next_index[OF assms(1) c] by (auto simp: nxt_def cur_def)
  show ?thesis
    using assms(1) n c x
    unfolding cur_def nxt_def
    by (auto simp: nextTrack_def resetTrackEffects_def adjustTempo_def hasChain_def setter_defs
          neutral_def scheduled_def Let_def nth_list_update)
qed

text \<open>A pending end-of-transition callback runs whenever its outgoing index has a chain.\<close>

lemma fire_TransitionEnd:
  assumes "k < length (timers m)" and "snd (timers m ! k) = TransitionEnd a b"
    and "a < length (chains m)"
  shows "\<exists>m''. fire k m = Inr m'' \<and> currentTrackIndex m'' = b \<and> \<not> isCrossfading m''"
  using assms
  by (simp add: fire_def runCallback_def hasChain_def resetTrackEffects_def andThen_def setter_defs)

lemma duringTransition_state:
  "\<exists>m. duringTransition = Inr m \<and> 2 \<le> length (mx_tracks m) \<and> wellFormed m \<and> isCrossfading m
       \<and> timers m = [(8000, TransitionEnd 0 1)]"
  by (simp add: example_defs skip_defs run_defs wellFormed_def)

text \<open>
  C6. A \<open>BeatmatchFade\<close> transition (\<open>beatmatch_fade\<close>) is to get the equal-power
  curve. The \<open>switch\<close> of \<open>performVolumeTransition\<close> sends \<open>beatmatch_blend\<close> and
  \<open>beatmatch\<close> to \<open>equalPowerCrossfade\<close> and has no case for \<open>beatmatch_fade\<close>, which
  falls to the default: one linear ramp from 1 to 0 on the outgoing gain and one from 0
  to 1 on the incoming gain.
\<close>

theorem beatmatch_fade_is_linear:
  "performVolumeTransition ''beatmatch_fade'' 8000 0 1 exampleMixer
     = linearCrossfade 0 1 0 8 exampleMixer
   \<and> map_sum id gainEvents (performVolumeTransition ''beatmatch_fade'' 8000 0 1 exampleMixer)
       = Inr [[SetValueAtTime 1 0, LinearRampToValueAtTime 0 8],
              [SetValueAtTime 0 0, LinearRampToValueAtTime 1 8], []]"
  by (simp add: example_defs run_defs gainEvents_def)

text \<open>
  C8, as the code has it. A skip while a transition is in flight resets the outgoing
  chain (gain value 0, the three bands flat, tempo 1), sets the target chain's gain value
  to 1, leaves every other chain as it was, and makes the target the current track. It
  cancels nothing: the pending callbacks, the automation scheduled on every gain and
  equaliser band, and the transition flag are what they were before the skip, and a
  pending end-of-transition callback still runs after it, making its own target the
  current track and clearing the flag.
\<close>

theorem skip_during_transition:
  assumes "2 \<le> length (mx_tracks m)" and "wellFormed m" and "isCrossfading m"
  shows "\<exists>m'. nextTrack m = Inr m'
           \<and> currentTrackIndex m' = (currentTrackIndex m + 1) mod length (mx_tracks m)
           \<and> p_value (gain (chains m' ! currentTrackIndex m')) = 1
           \<and> neutral (chains m' ! currentTrackIndex m)
           \<and> (\<forall>k. k \<noteq> currentTrackIndex m \<longrightarrow> k \<noteq> currentTrackIndex m'
                  \<longrightarrow> chains m' ! k = chains m ! k)
           \<and> timers m' = timers m
           \<and> (\<forall>k. scheduled (chains m' ! k) = scheduled (chains m ! k))
           \<and> isCrossfading m'
           \<and> (\<forall>k a b. k < length (timers m) \<and> snd (timers m ! k) = TransitionEnd a b
                        \<and> a < length (chains m)
                  \<longrightarrow> (\<exists>m''. fire k m' = Inr m'' \<and> currentTrackIndex m'' = b
                               \<and> \<not> isCrossfading m''))"
proof -
  from nextTrack_result[OF assms(1,2)] obtain m' where m':
    "nextTrack m = Inr m'"
    "currentTrackIndex m' = (currentTrackIndex m + 1) mod length (mx_tracks m)"
    "length (chains m') = length (chains m)"
    "neutral (chains m' ! currentTrackIndex m)"
    "p_value (gain (chains m' ! ((currentTrackIndex m + 1) mod length (mx_tracks m)))) = 1"
    "\<forall>k. k \<noteq> currentTrackIndex m \<longrightarrow> k \<noteq> (currentTrackIndex m + 1) mod length (mx_tracks m)
           \<longrightarrow> chains m' ! k = chains m ! k"
    "\<forall>k. scheduled (chains m' ! k) = scheduled (chains m ! k)"
    "timers m' = timers m" "isCrossfading m' = isCrossfading m"
    by blast
  have "\<forall>k a b. k < length (timers m) \<and> snd (timers m ! k) = TransitionEnd a b
                  \<and> a < length (chains m)
            \<longrightarrow> (\<exists>m''. fire k m' = Inr m'' \<and> currentTrackIndex m'' = b
                         \<and> \<not> isCrossfading m'')"
  proof (intro allI impI)
    fix k a b
    assume "k < length (timers m) \<and> snd (timers m ! k) = TransitionEnd a b
            \<and> a < length (chains m)"
    then show "\<exists>m''. fire k m' = Inr m'' \<and> currentTrackIndex m'' = b \<and> \<not> isCrossfading m''"
      using fire_TransitionEnd[of k m' a b] m'(3,8) by simp
  qed
  with m' assms(3) show ?thesis
    by (intro exI[of _ m']) simp
qed

theorem skip_during_transition_witness:
  "map_sum id isCrossfading duringTransition = Inr True
   \<and> map_sum id timers afterSkip = Inr [(8000, TransitionEnd 0 1)]
   \<and> map_sum id isCrossfading afterSkip = Inr True
   \<and> map_sum id currentTrackIndex afterSkip = Inr 1
   \<and> map_sum id (neutral \<circ> hd \<circ> chains) afterSkip = Inr True
   \<and> map_sum id isCrossfading (andThen afterSkip (fire 0)) = Inr False"
proof -
  from duringTransition_state obtain m where m: "duringTransition = Inr m"
    "2 \<le> length (mx_tracks m)" "wellFormed m" "isCrossfading m"
    "timers m = [(8000, TransitionEnd 0 1)]"
    by blast
  have cur: "currentTrackIndex m = 0" and n: "length (mx_tracks m) = 3"
    using m(1) by (auto simp: example_defs skip_defs run_defs)
  have l: "0 < length (chains m)"
    using m(3) n by (simp add: wellFormed_def)
  from skip_during_transition[OF m(2,3,4)] obtain m' where m':
    "nextTrack m = Inr m'" "currentTrackIndex m' = (currentTrackIndex m + 1) mod length (mx_tracks m)"
    "timers m' = timers m" "isCrossfading m'" "neutral (chains m' ! currentTrackIndex m)"
    "\<forall>k a b. k < length (timers m) \<and> snd (timers m ! k) = TransitionEnd a b
                \<and> a < length (chains m)
          \<longrightarrow> (\<exists>m''. fire k m' = Inr m'' \<and> currentTrackIndex m'' = b \<and> \<not> isCrossfading m'')"
    by blast
  from m'(6)[rule_format, of 0 0 1] m(5) l obtain m'' where
    m'': "fire 0 m' = Inr m''" "\<not> isCrossfading m''"
    by auto
  have "chains m' \<noteq> []"
    using m'(1) m(1) by (auto simp: example_defs skip_defs run_defs)
  then have "hd (chains m') = chains m' ! 0" by (simp add: hd_conv_nth)
  with m' m'' show ?thesis
    unfolding afterSkip_def andThen_def m(1) using m(4,5) cur n by simp
qed

text \<open>
  C8 as stated fails. After the skip the transition's timer is still pending and its
  ramps are still scheduled on the gains. When the user skips once more (the third track
  is current, its gain 1) and the timer then runs, its callback makes the second track
  current again, whose gain is 0 while the third chain's is 1.
\<close>

theorem skip_leaves_automation_scheduled:
  "map_sum id timers afterSkip = Inr [(8000, TransitionEnd 0 1)]
   \<and> map_sum id gainEvents afterSkip
       = Inr [[SetValueAtTime 1 0, LinearRampToValueAtTime 0 8],
              [SetValueAtTime 0 0, LinearRampToValueAtTime 1 8], []]
   \<and> map_sum id isCrossfading afterSkip = Inr True
   \<and> map_sum id currentTrackIndex (andThen afterSkip nextTrack) = Inr 2
   \<and> map_sum id currentTrackIndex afterStaleCallback = Inr 1
   \<and> map_sum id gainValues afterStaleCallback = Inr [0, 0, 1]"
  by (simp add: example_defs skip_defs run_defs gainEvents_def gainValues_def)




section \<open>Properties of the track analysis\<close>

text \<open>
  C7, as the code has it. \<open>analyzeTrackFile\<close> passes a failure on to its caller.
  \<open>analyzeTracks\<close> catches it: for every track (that comes in without an analysis)
  whose file cannot be analysed it still
  returns the track, without an advanced analysis (so without beats, key and energy
  bands). It stores no default tempo on that path: the track keeps its own tempo, or
  gets the catalogue's, or 120 when the catalogue lookup fails.
\<close>

theorem analysis_failure_is_caught:
  assumes "fst (analyzeTrackFile env cache path) = Inl e" and "t_filePath track = Some path"
    and "t_advancedAnalysis track = None"
  shows "\<exists>r. analyzeTrack env cache scGet track = Inr r
           \<and> t_advancedAnalysis r = None \<and> rhythmOf r = None \<and> energyBandsOf r = []
           \<and> t_bpm r =
               (if num_or (t_bpm track) 0 = 0 \<and> t_id track \<noteq> 0 then
                  (case scGet (t_id track) of
                     Throws x \<Rightarrow> Some 120 | Failed x \<Rightarrow> Some 120 | Found d \<Rightarrow> t_bpm d)
                else t_bpm track)"
proof -
  have p: "str_or (t_filePath track) [] = path \<or> str_or (t_filePath track) [] = []"
    using assms(2) by (simp add: str_or_def)
  have adv: "(if t_uploaded track \<and> str_or (t_filePath track) [] \<noteq> []
                 \<and> fileExists env (str_or (t_filePath track) [])
              then (case tryCatch
                           (map_sum id Some
                              (fst (analyzeTrackFile env cache (str_or (t_filePath track) []))))
                           (\<lambda>analyzeError. Inr None) of
                      Inl e \<Rightarrow> None | Inr a \<Rightarrow> a)
              else None) = None"
    using p assms(1) by (auto simp: tryCatch_def)
  have falsy: "num_or (t_bpm track) 0 = 0 \<Longrightarrow> num_or (t_bpm track) 120 = 120"
    by (auto simp: num_or_def split: option.splits if_splits)
  show ?thesis
  proof (cases "num_or (t_bpm track) 0 = 0 \<and> t_id track \<noteq> 0")
    case False
    then show ?thesis
      using assms(3)
      by (auto simp: analyzeTrack_def adv tryCatch_def andThen_def rhythmOf_def energyBandsOf_def)
  next
    case True
    show ?thesis
    proof (cases "scGet (t_id track)")
      case (Throws x)
      then show ?thesis
        using True assms(3) falsy
        by (simp add: analyzeTrack_def adv tryCatch_def andThen_def rhythmOf_def energyBandsOf_def)
    next
      case (Failed x)
      then show ?thesis
        using True
        by (simp add: analyzeTrack_def adv tryCatch_def andThen_def rhythmOf_def energyBandsOf_def)
    next
      case (Found d)
      then show ?thesis
        using True
        by (simp add: analyzeTrack_def adv tryCatch_def andThen_def rhythmOf_def energyBandsOf_def)
    qed
  qed
qed

theorem analysis_failure_is_caught_witness:
  "fst (analyzeTrackFile undecodable Map.empty ''uploads/track.mp3'')
     = Inl (Error ''Unable to decode audio data'')
   \<and> t_filePath uploadedTrack = Some ''uploads/track.mp3''
   \<and> map_sum id t_advancedAnalysis (analyzeTrack undecodable Map.empty unreachable uploadedTrack)
       = Inr None
   \<and> map_sum id t_bpm (analyzeTrack undecodable Map.empty unreachable uploadedTrack)
       = Inr (Some 128)"
proof -
  have f: "fst (analyzeTrackFile undecodable Map.empty ''uploads/track.mp3'')
             = Inl (Error ''Unable to decode audio data'')"
    by (simp add: analyzeTrackFile_def undecodable_def tryCatch_def)
  have p: "t_filePath uploadedTrack = Some ''uploads/track.mp3''"
    by (simp add: uploadedTrack_def)
  have n: "t_advancedAnalysis uploadedTrack = None"
    by (simp add: uploadedTrack_def)
  from analysis_failure_is_caught[OF f p n, of unreachable] obtain r where
    "analyzeTrack undecodable Map.empty unreachable uploadedTrack = Inr r"
    "t_advancedAnalysis r = None"
    "t_bpm r = (if num_or (t_bpm uploadedTrack) 0 = 0 \<and> t_id uploadedTrack \<noteq> 0 then
                  (case unreachable (t_id uploadedTrack) of
                     Throws x \<Rightarrow> Some 120 | Failed x \<Rightarrow> Some 120 | Found d \<Rightarrow> t_bpm d)
                else t_bpm uploadedTrack)"
    by blast
  then show ?thesis
    using f p by (simp add: uploadedTrack_def num_or_def)
qed

text \<open>
  C7 as stated fails for \<open>analyzeTrackFile\<close>: when decoding fails it does not return a
  features object, it throws the decoder's error.
\<close>

theorem analyzeTrackFile_rethrows:
  "fst (analyzeTrackFile undecodable Map.empty ''uploads/track.mp3'')
     = Inl (Error ''Unable to decode audio data'')"
  by (simp add: analyzeTrackFile_def undecodable_def tryCatch_def)


section \<open>Properties of the planner on the store\<close>

lemma unchanged_refl: "unchanged s s"
  by (simp add: unchanged_def)

lemma take_length_le: "take (length ys) xs = ys \<Longrightarrow> length ys \<le> length xs"
proof -
  assume "take (length ys) xs = ys"
  then have "length (take (length ys) xs) = length ys" by (rule arg_cong)
  then show ?thesis by simp
qed

lemma unchanged_length: "unchanged s0 s \<Longrightarrow> length (arrays s0) \<le> length (arrays s)"
  unfolding unchanged_def by (blast dest: take_length_le)

lemma newArray_frame:
  "newArray elems s = (a, s') \<Longrightarrow> unchanged s0 s \<Longrightarrow> unchanged s0 s' \<and> length (arrays s0) \<le> a"
  using unchanged_length[of s0 s] by (auto simp: newArray_def unchanged_def)

lemma setArray_frame:
  "unchanged s0 s \<Longrightarrow> length (arrays s0) \<le> a \<Longrightarrow> unchanged s0 (setArray a elems s)"
  by (auto simp: setArray_def unchanged_def)

lemma newCopy_frame:
  "newCopy obj s = (r, s') \<Longrightarrow> unchanged s0 s \<Longrightarrow> unchanged s0 s'"
proof -
  assume a: "newCopy obj s = (r, s')" and u: "unchanged s0 s"
  have "length (copyObjects s0) \<le> length (copyObjects s)"
    using u unfolding unchanged_def by (blast dest: take_length_le)
  then show ?thesis using a u by (auto simp: newCopy_def unchanged_def)
qed

lemma spread_frame:
  "spread b s = (a, s') \<Longrightarrow> unchanged s0 s \<Longrightarrow> unchanged s0 s' \<and> length (arrays s0) \<le> a"
  unfolding spread_def by (rule newArray_frame)

lemma sliceFrom_frame:
  "sliceFrom b k s = (a, s') \<Longrightarrow> unchanged s0 s \<Longrightarrow> unchanged s0 s' \<and> length (arrays s0) \<le> a"
  unfolding sliceFrom_def by (rule newArray_frame)

lemma filterArray_frame:
  "filterArray keep b s = (a, s') \<Longrightarrow> unchanged s0 s \<Longrightarrow> unchanged s0 s' \<and> length (arrays s0) \<le> a"
  unfolding filterArray_def by (rule newArray_frame)

lemma sortArray_frame:
  "unchanged s0 s \<Longrightarrow> length (arrays s0) \<le> a \<Longrightarrow> unchanged s0 (sortArray key a s)"
  unfolding sortArray_def by (rule setArray_frame)

lemma annotateInto_frame:
  "unchanged s0 (snd state) \<Longrightarrow> unchanged s0 (snd (annotateInto p state))"
  by (auto simp: annotateInto_def split: prod.splits dest: newCopy_frame)

lemma fold_annotateInto_frame:
  "unchanged s0 (snd state) \<Longrightarrow> unchanged s0 (snd (fold annotateInto ps state))"
  by (induction ps arbitrary: state) (simp_all add: annotateInto_frame)

lemma mapAnnotate_frame:
  assumes "mapAnnotate b s = (a, s')" and "unchanged s0 s"
  shows "unchanged s0 s' \<and> length (arrays s0) \<le> a"
proof -
  obtain refs s1 where f: "fold annotateInto (arrays s ! b) ([], s) = (refs, s1)"
    by (cases "fold annotateInto (arrays s ! b) ([], s)")
  have "unchanged s0 s1"
    using fold_annotateInto_frame[of s0 "([], s)" "arrays s ! b"] assms(2) f by simp
  moreover have "newArray refs s1 = (a, s')"
    using assms(1) f by (simp add: mapAnnotate_def)
  ultimately show ?thesis by (rule newArray_frame[rotated])
qed

lemma storeCreateEnergyCurve_frame:
  assumes "storeCreateEnergyCurve tracks s = (r, s')" and "unchanged s0 s"
  shows "unchanged s0 s'"
proof -
  obtain sortedByEnergy s1 where 1: "spread tracks s = (sortedByEnergy, s1)"
    by (cases "spread tracks s")
  define s2 where "s2 = sortArray (\<lambda>p. m_energy (copyAt s1 p)) sortedByEnergy s1"
  obtain result s3 where 3: "newArray [] s2 = (result, s3)"
    by (cases "newArray [] s2")
  define midpoint where "midpoint = length (arrays s2 ! sortedByEnergy) div 2"
  define s4 where "s4 = setArray result (arrays s3 ! result @ [arrays s3 ! sortedByEnergy ! midpoint]) s3"
  from spread_frame[OF 1 assms(2)] have u1: "unchanged s0 s1" "length (arrays s0) \<le> sortedByEnergy"
    by auto
  then have u2: "unchanged s0 s2" unfolding s2_def by (rule sortArray_frame)
  from newArray_frame[OF 3 u2] have u3: "unchanged s0 s3" "length (arrays s0) \<le> result" by auto
  then have u4: "unchanged s0 s4" unfolding s4_def by (rule setArray_frame)
  have "s' = s4 \<or> (\<exists>pushed. s' = setArray result pushed s4)"
    using assms(1) 1 3
    by (auto simp: storeCreateEnergyCurve_def Let_def s2_def[symmetric] midpoint_def[symmetric]
          s4_def[symmetric] split: if_splits option.splits)
  then show ?thesis using u4 u3(2) by (auto intro: setArray_frame)
qed

lemma storeMinimizeBpmJumps_frame:
  assumes "storeMinimizeBpmJumps tracks s = (r, s')" and "unchanged s0 s"
  shows "unchanged s0 s' \<and> length (arrays s0) \<le> r"
proof -
  obtain sortedByBpm s1 where 1: "spread tracks s = (sortedByBpm, s1)"
    by (cases "spread tracks s")
  define s2 where "s2 = sortArray (\<lambda>p. m_bpm (copyAt s1 p)) sortedByBpm s1"
  obtain result s3 where 3: "newArray (take 1 (arrays s2 ! sortedByBpm)) s2 = (result, s3)"
    by (cases "newArray (take 1 (arrays s2 ! sortedByBpm)) s2")
  obtain remaining s4 where 4: "sliceFrom sortedByBpm 1 s3 = (remaining, s4)"
    by (cases "sliceFrom sortedByBpm 1 s3")
  from spread_frame[OF 1 assms(2)] have u1: "unchanged s0 s1" "length (arrays s0) \<le> sortedByBpm"
    by auto
  then have u2: "unchanged s0 s2" unfolding s2_def by (rule sortArray_frame)
  from newArray_frame[OF 3 u2] have u3: "unchanged s0 s3" "length (arrays s0) \<le> result" by auto
  from sliceFrom_frame[OF 4 u3(1)] have u4: "unchanged s0 s4" "length (arrays s0) \<le> remaining"
    by auto
  have "r = result"
    and "s' = setArray remaining []
               (setArray result (bpmLoop (copyAt s4) (arrays s4 ! result) (arrays s4 ! remaining)) s4)"
    using assms(1) 1 3 4
    by (auto simp: storeMinimizeBpmJumps_def Let_def s2_def[symmetric])
  then show ?thesis using u3(2) u4 by (auto intro: setArray_frame)
qed

lemma storeHarmonicMixing_frame:
  assumes "storeHarmonicMixing tracks s = (r, s')" and "unchanged s0 s"
  shows "unchanged s0 s'"
proof -
  obtain tracksWithKeys s1 where 1: "filterArray (\<lambda>p. hasKey (copyAt s p)) tracks s = (tracksWithKeys, s1)"
    by (cases "filterArray (\<lambda>p. hasKey (copyAt s p)) tracks s")
  from filterArray_frame[OF 1 assms(2)] have u1: "unchanged s0 s1" by auto
  show ?thesis
  proof (cases "2 * length (arrays s1 ! tracksWithKeys) < length (arrays s1 ! tracks)")
    case True
    then have "s' = s1" using assms(1) 1 by (simp add: storeHarmonicMixing_def)
    then show ?thesis using u1 by simp
  next
    case False
    obtain result s2 where 2: "newArray (take 1 (arrays s1 ! tracksWithKeys)) s1 = (result, s2)"
      by (cases "newArray (take 1 (arrays s1 ! tracksWithKeys)) s1")
    obtain remaining s3 where 3: "sliceFrom tracksWithKeys 1 s2 = (remaining, s3)"
      by (cases "sliceFrom tracksWithKeys 1 s2")
    define s4 where "s4 = setArray remaining []
        (setArray result (harmonicLoop (copyAt s3) (arrays s3 ! result) (arrays s3 ! remaining)) s3)"
    obtain missingTracks s5 where
      5: "filterArray (\<lambda>p. \<not> hasKey (copyAt s4 p)) tracks s4 = (missingTracks, s5)"
      by (cases "filterArray (\<lambda>p. \<not> hasKey (copyAt s4 p)) tracks s4")
    from newArray_frame[OF 2 u1] have u2: "unchanged s0 s2" "length (arrays s0) \<le> result" by auto
    from sliceFrom_frame[OF 3 u2(1)] have u3: "unchanged s0 s3" "length (arrays s0) \<le> remaining"
      by auto
    have u4: "unchanged s0 s4" unfolding s4_def using u2(2) u3 by (auto intro: setArray_frame)
    from filterArray_frame[OF 5 u4] have u5: "unchanged s0 s5" by auto
    have "newArray (arrays s5 ! result @ arrays s5 ! missingTracks) s5 = (r, s')"
      using assms(1) 1 2 3 5 False
      by (simp add: storeHarmonicMixing_def Let_def s4_def[symmetric])
    from newArray_frame[OF this u5] show ?thesis by simp
  qed
qed

text \<open>Nothing that existed before the call is written by it.\<close>

lemma storeCalculateMixOrder_frame:
  "unchanged s (snd (storeCalculateMixOrder analyzedTracks s))"
proof (cases "length (arrays s ! analyzedTracks) < 3")
  case True
  obtain copy s1 where 1: "spread analyzedTracks s = (copy, s1)"
    by (cases "spread analyzedTracks s")
  from spread_frame[OF 1 unchanged_refl] have "unchanged s s1" "length (arrays s) \<le> copy" by auto
  then have "unchanged s (sortArray (\<lambda>p. num_or (t_bpm (trackObjects s1 ! p)) 120) copy s1)"
    by (rule sortArray_frame)
  then show ?thesis using True 1 by (simp add: storeCalculateMixOrder_def)
next
  case False
  obtain copy s1 where 1: "spread analyzedTracks s = (copy, s1)"
    by (cases "spread analyzedTracks s")
  obtain tracks s2 where 2: "mapAnnotate copy s1 = (tracks, s2)"
    by (cases "mapAnnotate copy s1")
  obtain e s3 where 3: "storeCreateEnergyCurve tracks s2 = (e, s3)"
    by (cases "storeCreateEnergyCurve tracks s2")
  from spread_frame[OF 1 unchanged_refl] have u1: "unchanged s s1" by auto
  from mapAnnotate_frame[OF 2 u1] have u2: "unchanged s s2" by auto
  from storeCreateEnergyCurve_frame[OF 3 u2] have u3: "unchanged s s3" .
  show ?thesis
  proof (cases e)
    case None
    then show ?thesis using False 1 2 3 u3 by (simp add: storeCalculateMixOrder_def Let_def)
  next
    case (Some energyOrdered)
    define h where "h = (\<exists>p \<in> set (arrays s ! analyzedTracks). t_advancedAnalysis (trackObjects s ! p) \<noteq> None)"
    obtain bpmOrdered s4 where 4: "storeMinimizeBpmJumps tracks s3 = (bpmOrdered, s4)"
      by (cases "storeMinimizeBpmJumps tracks s3")
    obtain harmonicOrdered s5 where
      5: "(if h then storeHarmonicMixing tracks s4 else (tracks, s4)) = (harmonicOrdered, s5)"
      by (cases "if h then storeHarmonicMixing tracks s4 else (tracks, s4)")
    obtain finalOrder s6 where 6: "spread tracks s5 = (finalOrder, s6)"
      by (cases "spread tracks s5")
    obtain result s7 where 7: "newArray [] s6 = (result, s7)"
      by (cases "newArray [] s6")
    from storeMinimizeBpmJumps_frame[OF 4 u3] have u4: "unchanged s s4" by auto
    have u5: "unchanged s s5"
      using 5 u4 storeHarmonicMixing_frame[of tracks s4 harmonicOrdered s5 s]
      by (auto split: if_splits)
    from spread_frame[OF 6 u5] have u6: "unchanged s s6" by auto
    from newArray_frame[OF 7 u6] have u7: "unchanged s s7" "length (arrays s) \<le> result" by auto
    have "\<exists>pushed. snd (storeCalculateMixOrder analyzedTracks s) = setArray result pushed s7"
    proof (cases h)
      case True
      then have "storeHarmonicMixing tracks s4 = (harmonicOrdered, s5)" using 5 by simp
      then show ?thesis
        using False 1 2 3 Some 4 6 7 True[unfolded h_def]
        by (auto simp add: storeCalculateMixOrder_def Let_def)
    next
      case noAnalysis: False
      then have "harmonicOrdered = tracks" "s5 = s4" using 5 by simp_all
      then show ?thesis
        using False 1 2 3 Some 4 6 7 noAnalysis[unfolded h_def]
        by (auto simp add: storeCalculateMixOrder_def Let_def)
    qed
    then show ?thesis using u7 by (auto intro: setArray_frame)
  qed
qed

text \<open>
  C9. \<open>calculateMixOrder\<close> does not mutate its input: after the call the caller's array
  holds the same references in the same order, every track object is what it was, and so
  is every other array and object that existed before the call (the function sorts and
  fills only arrays it has made, and sets properties only on objects it has made).
\<close>

theorem calculateMixOrder_leaves_input:
  assumes "analyzedTracks < length (arrays s)"
  shows "arrays (snd (storeCalculateMixOrder analyzedTracks s)) ! analyzedTracks
           = arrays s ! analyzedTracks
         \<and> trackObjects (snd (storeCalculateMixOrder analyzedTracks s)) = trackObjects s
         \<and> unchanged s (snd (storeCalculateMixOrder analyzedTracks s))"
proof -
  let ?s' = "snd (storeCalculateMixOrder analyzedTracks s)"
  have u: "unchanged s ?s'" by (rule storeCalculateMixOrder_frame)
  then have "take (length (arrays s)) (arrays ?s') ! analyzedTracks = arrays s ! analyzedTracks"
    by (simp add: unchanged_def)
  then have "arrays ?s' ! analyzedTracks = arrays s ! analyzedTracks"
    using assms by simp
  with u show ?thesis by (simp add: unchanged_def)
qed

theorem calculateMixOrder_leaves_input_witness:
  "arrays (snd (storeCalculateMixOrder 0 exampleStore)) ! 0 = [0, 1, 2]
   \<and> trackObjects (snd (storeCalculateMixOrder 0 exampleStore)) = trackObjects exampleStore"
proof -
  have l: "0 < length (arrays exampleStore)" and a: "arrays exampleStore ! 0 = [0, 1, 2]"
    by (simp_all add: exampleStore_def)
  from calculateMixOrder_leaves_input[OF l] show ?thesis
    unfolding a by blast
qed

end
